theory Spec2Isabelle
  imports Complex_Main "HOL-Library.Char_ord" "HOL-Library.List_Lexorder"
begin

section \<open>Data model\<close>

text \<open>
  The tables of \<^verbatim>\<open>backend/models\<close>. Python floats are carried as reals (nothing
  below computes with them), datetimes and dates as points on an integer time line,
  strings as lists of characters. Every table is a list of rows in insertion order; a
  query's \<^verbatim>\<open>.first()\<close> is the first matching row of the list. A field keeps the
  source's name after a prefix for its class (\<open>p_\<close> project, \<open>c_\<close> constituency,
  \<open>k_\<close> contractor, \<open>a_\<close> award, \<open>u_\<close> user), since several classes have an
  \<^verbatim>\<open>id\<close> and a \<^verbatim>\<open>name\<close>.
\<close>

type_synonym float = real
type_synonym datetime = int
type_synonym date = int

datatype ProjectCategory =
  Education | Health | Water | Infrastructure | Security | Environment | Other

datatype ProjectStatus = Planned | Ongoing | Completed | Flagged

datatype UserRole = admin | moderator | viewer

datatype UserStatus = active | disabled

record Constituency =
  c_code :: string
  c_name :: string
  c_county :: string
  c_mp_name :: string
  c_population :: "int option"
  c_pas_score :: "float option"

record Project =
  p_id :: int
  p_title :: string
  p_description :: "string option"
  p_category :: ProjectCategory
  p_status :: ProjectStatus
  p_budget :: float
  p_spent :: "float option"
  p_progress :: "float option"
  p_constituency_code :: string
  p_start_date :: "datetime option"
  p_completion_date :: "datetime option"
  p_is_mock :: bool
  p_source_name :: "string option"
  p_source_url :: "string option"
  p_source_doc_ref :: "string option"
  p_last_updated :: datetime

record Contractor =
  k_id :: int
  k_name :: string
  k_phone :: "string option"
  k_email :: "string option"
  k_registration_no :: "string option"
  k_address :: "string option"
  k_created_at :: datetime

record ProcurementAward =
  a_id :: int
  a_project_id :: int
  a_contractor_id :: int
  a_tender_id :: "string option"
  a_procurement_method :: "string option"
  a_contract_value :: "float option"
  a_award_date :: "date option"
  a_contractor_share_hint :: "float option"
  a_performance_flag :: "bool option"
  a_performance_flag_reason :: "string option"
  a_created_at :: datetime

record User =
  u_id :: int
  u_username :: string
  u_password_hash :: string
  u_full_name :: "string option"
  u_email :: "string option"
  u_role :: UserRole
  u_status :: UserStatus
  u_created_at :: datetime
  u_last_login :: "datetime option"

record database =
  constituencies :: "Constituency list"
  projects :: "Project list"
  contractors :: "Contractor list"
  awards :: "ProcurementAward list"
  users :: "User list"

text \<open>
  What a call can raise: FastAPI's \<^verbatim>\<open>HTTPException(status_code, detail)\<close> and its
  rejection of a query parameter outside the declared bounds, the driver errors
  SQLAlchemy raises at flush or commit, and Python's \<^verbatim>\<open>ValueError\<close>.
\<close>

datatype error =
  HTTPException int string | RequestValidationError | IntegrityError | DataError | ValueError

text \<open>
  The database behind \<^verbatim>\<open>DATABASE_URL\<close> is configuration. Two things depend on it:
  whether the declared foreign keys are checked, and whether \<^verbatim>\<open>max_length\<close> (a
  \<^verbatim>\<open>VARCHAR(n)\<close> column) is. NOT NULL and the primary key are checked everywhere.
\<close>

record backend =
  enforce_fk :: bool
  enforce_varchar :: bool

definition fits :: "nat \<Rightarrow> string option \<Rightarrow> bool" where
  "fits n v = (case v of None \<Rightarrow> True | Some s \<Rightarrow> length s \<le> n)"

text \<open>A fresh surrogate key: larger than every key of the table.\<close>

definition next_id :: "int list \<Rightarrow> int" where
  "next_id ids = fold max ids 0 + 1"

section \<open>Award Binder: \<^verbatim>\<open>backend/api/procurement_award_router.py\<close>\<close>

record ProcurementAwardCreate =
  ac_project_id :: int
  ac_contractor_id :: int
  ac_tender_id :: "string option"
  ac_procurement_method :: "string option"
  ac_contract_value :: "float option"
  ac_award_date :: "date option"
  ac_contractor_share_hint :: "float option"
  ac_performance_flag :: bool
  ac_performance_flag_reason :: "string option"

text \<open>
  \<^verbatim>\<open>ProcurementAwardUpdate\<close>: every field is optional, and \<^verbatim>\<open>model_dump(exclude_unset=True)\<close>
  keeps the fields the request set, a null included. \<open>None\<close> is a field the request
  left out, \<open>Some None\<close> an explicit null, \<open>Some (Some v)\<close> a value. The schema has no
  \<^verbatim>\<open>project_id\<close>.
\<close>

record ProcurementAwardUpdate =
  au_contractor_id :: "int option option"
  au_tender_id :: "string option option"
  au_procurement_method :: "string option option"
  au_contract_value :: "float option option"
  au_award_date :: "date option option"
  au_contractor_share_hint :: "float option option"
  au_performance_flag :: "bool option option"
  au_performance_flag_reason :: "string option option"

text \<open>
  The table \<^verbatim>\<open>ProcurementAward\<close> as \<^verbatim>\<open>backend/models/procurement_award.py\<close> declares
  it: \<^verbatim>\<open>id\<close> is the primary key, \<^verbatim>\<open>project_id\<close> and \<^verbatim>\<open>contractor_id\<close> are
  foreign keys with \<^verbatim>\<open>index=True\<close> (neither is declared unique), three text columns
  carry a \<^verbatim>\<open>max_length\<close>.
\<close>

definition award_columns_ok :: "ProcurementAward \<Rightarrow> bool" where
  "award_columns_ok a =
     (fits 120 (a_tender_id a) \<and> fits 80 (a_procurement_method a)
      \<and> fits 500 (a_performance_flag_reason a))"

definition project_exists :: "database \<Rightarrow> int \<Rightarrow> bool" where
  "project_exists db pid = list_ex (\<lambda>p. p_id p = pid) (projects db)"

definition contractor_exists :: "database \<Rightarrow> int \<Rightarrow> bool" where
  "contractor_exists db cid = list_ex (\<lambda>k. k_id k = cid) (contractors db)"

text \<open>
  \<^verbatim>\<open>session.add(award); session.commit()\<close> of a new row: the INSERT, with the checks
  the table declares. The row gets a fresh id; a failed commit leaves the table as it was.
\<close>

definition insert_award ::
  "backend \<Rightarrow> ProcurementAward \<Rightarrow> database \<Rightarrow> (error + ProcurementAward) \<times> database" where
  "insert_award b row db =
     (let award = row\<lparr>a_id := next_id (map a_id (awards db))\<rparr> in
      if enforce_varchar b \<and> \<not> award_columns_ok award then (Inl DataError, db)
      else if enforce_fk b \<and> \<not> (project_exists db (a_project_id award)
                \<and> contractor_exists db (a_contractor_id award))
        then (Inl IntegrityError, db)
      else (Inr award, db\<lparr>awards := awards db @ [award]\<rparr>))"

text \<open>\<^verbatim>\<open>ProcurementAward(**payload.model_dump())\<close>; \<^verbatim>\<open>created_at\<close> is \<^verbatim>\<open>utcnow()\<close>.\<close>

definition new_award :: "datetime \<Rightarrow> ProcurementAwardCreate \<Rightarrow> ProcurementAward" where
  "new_award now payload =
     \<lparr>a_id = 0,
      a_project_id = ac_project_id payload,
      a_contractor_id = ac_contractor_id payload,
      a_tender_id = ac_tender_id payload,
      a_procurement_method = ac_procurement_method payload,
      a_contract_value = ac_contract_value payload,
      a_award_date = ac_award_date payload,
      a_contractor_share_hint = ac_contractor_share_hint payload,
      a_performance_flag = Some (ac_performance_flag payload),
      a_performance_flag_reason = ac_performance_flag_reason payload,
      a_created_at = now\<rparr>"

text \<open>
  \<^verbatim>\<open>create_award\<close>, lines 57 to 61: the pre-check, a SELECT of the awards of the
  payload's project. It reads the table and writes nothing.
\<close>

definition create_award_check :: "ProcurementAwardCreate \<Rightarrow> database \<Rightarrow> error option" where
  "create_award_check payload db =
     (case find (\<lambda>a. a_project_id a = ac_project_id payload) (awards db) of
        Some existing \<Rightarrow> Some (HTTPException 400 ''This project already has an award'')
      | None \<Rightarrow> None)"

text \<open>\<^verbatim>\<open>create_award\<close>: the pre-check, then lines 63 to 67, the insert.\<close>

definition create_award ::
  "backend \<Rightarrow> datetime \<Rightarrow> ProcurementAwardCreate \<Rightarrow> database
     \<Rightarrow> (error + ProcurementAward) \<times> database" where
  "create_award b now payload db =
     (case create_award_check payload db of
        Some e \<Rightarrow> (Inl e, db)
      | None \<Rightarrow> insert_award b (new_award now payload) db)"

text \<open>
  \<^verbatim>\<open>update_award\<close>: \<^verbatim>\<open>for k, v in data.items(): setattr(award, k, v)\<close>. A field the
  request left out is not in \<^verbatim>\<open>data\<close> and is not assigned.
\<close>

definition set_field :: "'a option \<Rightarrow> 'a \<Rightarrow> 'a" where
  "set_field upd old = (case upd of None \<Rightarrow> old | Some v \<Rightarrow> v)"

definition setattrs :: "ProcurementAwardUpdate \<Rightarrow> ProcurementAward \<Rightarrow> ProcurementAward" where
  "setattrs payload award =
     award\<lparr>a_contractor_id :=
              (case au_contractor_id payload of
                 Some (Some c) \<Rightarrow> c
               | _ \<Rightarrow> a_contractor_id award),
           a_tender_id := set_field (au_tender_id payload) (a_tender_id award),
           a_procurement_method :=
              set_field (au_procurement_method payload) (a_procurement_method award),
           a_contract_value := set_field (au_contract_value payload) (a_contract_value award),
           a_award_date := set_field (au_award_date payload) (a_award_date award),
           a_contractor_share_hint :=
              set_field (au_contractor_share_hint payload) (a_contractor_share_hint award),
           a_performance_flag :=
              set_field (au_performance_flag payload) (a_performance_flag award),
           a_performance_flag_reason :=
              set_field (au_performance_flag_reason payload) (a_performance_flag_reason award)\<rparr>"

text \<open>The UPDATE writes the columns that changed; their checks are the only ones made.\<close>

definition too_long :: "nat \<Rightarrow> string option \<Rightarrow> string option \<Rightarrow> bool" where
  "too_long n old new = (new \<noteq> old \<and> \<not> fits n new)"

definition update_too_long :: "ProcurementAward \<Rightarrow> ProcurementAward \<Rightarrow> bool" where
  "update_too_long old new =
     (too_long 120 (a_tender_id old) (a_tender_id new)
      \<or> too_long 80 (a_procurement_method old) (a_procurement_method new)
      \<or> too_long 500 (a_performance_flag_reason old) (a_performance_flag_reason new))"

text \<open>
  \<^verbatim>\<open>update_award\<close>. \<^verbatim>\<open>session.get\<close> is the row of that primary key. An explicit
  null for \<^verbatim>\<open>contractor_id\<close> is assigned like any value and breaks the column's
  NOT NULL at commit; the exception is not caught and the session rolls back.
\<close>

definition update_award ::
  "backend \<Rightarrow> int \<Rightarrow> ProcurementAwardUpdate \<Rightarrow> database
     \<Rightarrow> (error + ProcurementAward) \<times> database" where
  "update_award b award_id payload db =
     (case find (\<lambda>a. a_id a = award_id) (awards db) of
        None \<Rightarrow> (Inl (HTTPException 404 ''Award not found''), db)
      | Some award \<Rightarrow>
          (let award' = setattrs payload award in
           if enforce_varchar b \<and> update_too_long award award' then (Inl DataError, db)
           else if au_contractor_id payload = Some None then (Inl IntegrityError, db)
           else if enforce_fk b \<and> a_contractor_id award' \<noteq> a_contractor_id award
                   \<and> \<not> contractor_exists db (a_contractor_id award')
             then (Inl IntegrityError, db)
           else (Inr award',
                 db\<lparr>awards := map (\<lambda>a. if a_id a = award_id then award' else a) (awards db)\<rparr>)))"

text \<open>\<^verbatim>\<open>delete_award\<close>.\<close>

definition delete_award :: "int \<Rightarrow> database \<Rightarrow> (error + unit) \<times> database" where
  "delete_award award_id db =
     (case find (\<lambda>a. a_id a = award_id) (awards db) of
        None \<Rightarrow> (Inl (HTTPException 404 ''Award not found''), db)
      | Some award \<Rightarrow> (Inr (), db\<lparr>awards := filter (\<lambda>a. a_id a \<noteq> award_id) (awards db)\<rparr>))"

text \<open>
  The frame of a partial update, field by field: a field the request left out keeps
  the stored value, and the columns no request can name keep theirs.
\<close>

definition absent_fields_kept ::
  "ProcurementAwardUpdate \<Rightarrow> ProcurementAward \<Rightarrow> ProcurementAward \<Rightarrow> bool" where
  "absent_fields_kept payload old new =
     ((au_contractor_id payload = None \<longrightarrow> a_contractor_id new = a_contractor_id old)
      \<and> (au_tender_id payload = None \<longrightarrow> a_tender_id new = a_tender_id old)
      \<and> (au_procurement_method payload = None
            \<longrightarrow> a_procurement_method new = a_procurement_method old)
      \<and> (au_contract_value payload = None \<longrightarrow> a_contract_value new = a_contract_value old)
      \<and> (au_award_date payload = None \<longrightarrow> a_award_date new = a_award_date old)
      \<and> (au_contractor_share_hint payload = None
            \<longrightarrow> a_contractor_share_hint new = a_contractor_share_hint old)
      \<and> (au_performance_flag payload = None
            \<longrightarrow> a_performance_flag new = a_performance_flag old)
      \<and> (au_performance_flag_reason payload = None
            \<longrightarrow> a_performance_flag_reason new = a_performance_flag_reason old)
      \<and> a_id new = a_id old \<and> a_project_id new = a_project_id old
      \<and> a_created_at new = a_created_at old)"

text \<open>A field the request set holds the request's value afterwards.\<close>

definition present_fields_set :: "ProcurementAwardUpdate \<Rightarrow> ProcurementAward \<Rightarrow> bool" where
  "present_fields_set payload new =
     ((case au_contractor_id payload of Some (Some c) \<Rightarrow> a_contractor_id new = c | _ \<Rightarrow> True)
      \<and> (case au_tender_id payload of Some v \<Rightarrow> a_tender_id new = v | None \<Rightarrow> True)
      \<and> (case au_procurement_method payload of
            Some v \<Rightarrow> a_procurement_method new = v | None \<Rightarrow> True)
      \<and> (case au_contract_value payload of Some v \<Rightarrow> a_contract_value new = v | None \<Rightarrow> True)
      \<and> (case au_award_date payload of Some v \<Rightarrow> a_award_date new = v | None \<Rightarrow> True)
      \<and> (case au_contractor_share_hint payload of
            Some v \<Rightarrow> a_contractor_share_hint new = v | None \<Rightarrow> True)
      \<and> (case au_performance_flag payload of
            Some v \<Rightarrow> a_performance_flag new = v | None \<Rightarrow> True)
      \<and> (case au_performance_flag_reason payload of
            Some v \<Rightarrow> a_performance_flag_reason new = v | None \<Rightarrow> True))"

section \<open>Project View Assembler: \<^verbatim>\<open>backend/api/project_router.py\<close>\<close>

text \<open>
  \<^verbatim>\<open>ProjectReadWithConstituency\<close>: \<^verbatim>\<open>d = project.dict()\<close>, every field of the project,
  and the eight keys the routes add.
\<close>

record ProjectReadWithConstituency =
  v_project :: Project
  constituency_name :: string
  mp_name :: string
  county :: string
  contractor_name :: "string option"
  tender_id :: "string option"
  procurement_method :: "string option"
  contract_value :: "float option"
  award_date :: "date option"

type_synonym joined_row =
  "Project \<times> Constituency \<times> ProcurementAward option \<times> Contractor option"

text \<open>
  The statement both routes build:
  \<^verbatim>\<open>select(Project, Constituency, ProcurementAward, Contractor)
  .join(Constituency, Project.constituency_code == Constituency.code)
  .outerjoin(ProcurementAward, ProcurementAward.project_id == Project.id)
  .outerjoin(Contractor, Contractor.id == ProcurementAward.contractor_id)\<close>.
  An outer join keeps a left row that has no partner, with a null on the right.
\<close>

definition join_contractor :: "database \<Rightarrow> ProcurementAward \<Rightarrow> Contractor option list" where
  "join_contractor db a =
     (case filter (\<lambda>k. k_id k = a_contractor_id a) (contractors db) of
        [] \<Rightarrow> [None]
      | ks \<Rightarrow> map Some ks)"

definition join_award ::
  "database \<Rightarrow> Project \<Rightarrow> (ProcurementAward option \<times> Contractor option) list" where
  "join_award db p =
     (case filter (\<lambda>a. a_project_id a = p_id p) (awards db) of
        [] \<Rightarrow> [(None, None)]
      | aws \<Rightarrow> concat (map (\<lambda>a. map (\<lambda>k. (Some a, k)) (join_contractor db a)) aws))"

definition project_rows :: "database \<Rightarrow> Project \<Rightarrow> joined_row list" where
  "project_rows db p =
     concat (map (\<lambda>c. map (\<lambda>(a, k). (p, c, a, k)) (join_award db p))
                 (filter (\<lambda>c. c_code c = p_constituency_code p) (constituencies db)))"

definition select_joined :: "database \<Rightarrow> joined_row list" where
  "select_joined db = concat (map (project_rows db) (projects db))"

text \<open>
  The dictionary both routes fill: \<^verbatim>\<open>contractor.name if contractor else None\<close>,
  \<^verbatim>\<open>award.tender_id if award else None\<close> and so on.
\<close>

definition to_view :: "joined_row \<Rightarrow> ProjectReadWithConstituency" where
  "to_view r =
     (case r of (project, constituency, award, contractor) \<Rightarrow>
        \<lparr>v_project = project,
         constituency_name = c_name constituency,
         mp_name = c_mp_name constituency,
         county = c_county constituency,
         contractor_name = (case contractor of None \<Rightarrow> None | Some k \<Rightarrow> Some (k_name k)),
         tender_id = (case award of None \<Rightarrow> None | Some a \<Rightarrow> a_tender_id a),
         procurement_method = (case award of None \<Rightarrow> None | Some a \<Rightarrow> a_procurement_method a),
         contract_value = (case award of None \<Rightarrow> None | Some a \<Rightarrow> a_contract_value a),
         award_date = (case award of None \<Rightarrow> None | Some a \<Rightarrow> a_award_date a)\<rparr>)"

text \<open>\<^verbatim>\<open>read_project\<close>: the statement with \<^verbatim>\<open>.where(Project.id == project_id)\<close>, \<^verbatim>\<open>.first()\<close>.\<close>

definition read_project :: "int \<Rightarrow> database \<Rightarrow> error + ProjectReadWithConstituency" where
  "read_project project_id db =
     (case filter (\<lambda>r. p_id (fst r) = project_id) (select_joined db) of
        [] \<Rightarrow> Inl (HTTPException 404 ''Project not found'')
      | r # _ \<Rightarrow> Inr (to_view r))"

text \<open>
  \<^verbatim>\<open>read_projects\<close>, lines 58 to 77: the sort column and direction. The code starts from
  \<^verbatim>\<open>Project.last_updated\<close> descending and has a branch for five strings.
\<close>

datatype sort_field = Sort_id | Sort_title | Sort_last_updated

datatype sort_direction = asc | desc

definition sort_choice :: "string \<Rightarrow> sort_field \<times> sort_direction" where
  "sort_choice sort_arg =
     (if sort_arg = ''id_asc'' then (Sort_id, asc)
      else if sort_arg = ''id_desc'' then (Sort_id, desc)
      else if sort_arg = ''title_asc'' then (Sort_title, asc)
      else if sort_arg = ''title_desc'' then (Sort_title, desc)
      else if sort_arg = ''last_updated_asc'' then (Sort_last_updated, asc)
      else (Sort_last_updated, desc))"

text \<open>
  \<^verbatim>\<open>ORDER BY\<close>: rows in the order of the column, strings compared character by
  character. Rows of equal key keep the table's order when ascending.
\<close>

definition directed :: "sort_direction \<Rightarrow> 'a list \<Rightarrow> 'a list" where
  "directed d xs = (case d of asc \<Rightarrow> xs | desc \<Rightarrow> rev xs)"

definition order_by :: "sort_field \<times> sort_direction \<Rightarrow> joined_row list \<Rightarrow> joined_row list" where
  "order_by c rows =
     (case c of (f, d) \<Rightarrow>
        directed d
          (case f of
             Sort_id \<Rightarrow> sort_key (\<lambda>r. p_id (fst r)) rows
           | Sort_title \<Rightarrow> sort_key (\<lambda>r. p_title (fst r)) rows
           | Sort_last_updated \<Rightarrow> sort_key (\<lambda>r. p_last_updated (fst r)) rows))"

text \<open>
  The filters: \<^verbatim>\<open>if constituency_code:\<close> is false for an absent and for an empty
  string; an enum member is always true.
\<close>

definition where_filters ::
  "string option \<Rightarrow> ProjectCategory option \<Rightarrow> ProjectStatus option \<Rightarrow> joined_row \<Rightarrow> bool" where
  "where_filters constituency_code category status r =
     ((case constituency_code of
         None \<Rightarrow> True
       | Some cc \<Rightarrow> cc = [] \<or> p_constituency_code (fst r) = cc)
      \<and> (case category of None \<Rightarrow> True | Some c \<Rightarrow> p_category (fst r) = c)
      \<and> (case status of None \<Rightarrow> True | Some st \<Rightarrow> p_status (fst r) = st))"

text \<open>
  \<^verbatim>\<open>read_projects\<close>. The \<^verbatim>\<open>sort\<close> argument is \<open>None\<close> when the request has no such parameter, and
  the declared default stands in; \<^verbatim>\<open>offset\<close> is declared \<^verbatim>\<open>ge=0\<close> and \<^verbatim>\<open>limit\<close>
  \<^verbatim>\<open>ge=1, le=100\<close>, and FastAPI refuses a request outside them before the body runs.
\<close>

definition read_projects ::
  "database \<Rightarrow> string option \<Rightarrow> ProjectCategory option \<Rightarrow> ProjectStatus option
     \<Rightarrow> string option \<Rightarrow> int \<Rightarrow> int \<Rightarrow> error + ProjectReadWithConstituency list" where
  "read_projects db constituency_code category status sort_arg offset limit =
     (if offset < 0 \<or> limit < 1 \<or> 100 < limit then Inl RequestValidationError
      else
        (let sort' = (case sort_arg of None \<Rightarrow> ''last_updated_desc'' | Some s \<Rightarrow> s);
             query = filter (where_filters constituency_code category status) (select_joined db);
             results = take (nat limit) (drop (nat offset) (order_by (sort_choice sort') query))
         in Inr (map to_view results)))"

section \<open>Natural-Key Upsert: \<^verbatim>\<open>data_pipeline/import_projects.py\<close>\<close>

text \<open>
  A row of \<^verbatim>\<open>csv.DictReader\<close> is a dictionary from column names to strings. A
  character is a code point below 256. \<^verbatim>\<open>str.strip()\<close> removes the characters
  \<^verbatim>\<open>str.isspace\<close> accepts from both ends; \<^verbatim>\<open>str.lower()\<close> maps a capital letter
  to the code point 32 above it, which is the same byte with the bit of weight 32 set.
\<close>

type_synonym csv_row = "string \<rightharpoonup> string"

definition is_space :: "char \<Rightarrow> bool" where
  "is_space c =
     (c \<in> set [CHR 0x09, CHR 0x0A, CHR 0x0B, CHR 0x0C, CHR 0x0D, CHR 0x1C, CHR 0x1D,
                CHR 0x1E, CHR 0x1F, CHR 0x20, CHR 0x85, CHR 0xA0])"

definition strip :: "string \<Rightarrow> string" where
  "strip s = rev (dropWhile is_space (rev (dropWhile is_space s)))"

definition lower_char :: "char \<Rightarrow> char" where
  "lower_char c =
     (let n = (of_char c :: nat) in
      if (65 \<le> n \<and> n \<le> 90) \<or> (192 \<le> n \<and> n \<le> 222 \<and> n \<noteq> 215)
      then (case c of Char b0 b1 b2 b3 b4 b5 b6 b7 \<Rightarrow> Char b0 b1 b2 b3 b4 True b6 b7)
      else c)"

definition lower :: "string \<Rightarrow> string" where
  "lower s = map lower_char s"

text \<open>\<^verbatim>\<open>row.get(k) or d\<close>: the default also replaces an empty string.\<close>

definition get_or :: "csv_row \<Rightarrow> string \<Rightarrow> string \<Rightarrow> string" where
  "get_or row k d = (case row k of None \<Rightarrow> d | Some v \<Rightarrow> if v = [] then d else v)"

text \<open>\<^verbatim>\<open>s or None\<close>.\<close>

definition or_None :: "string \<Rightarrow> string option" where
  "or_None s = (if s = [] then None else Some s)"

text \<open>
  Python's own \<^verbatim>\<open>float(s)\<close> and \<^verbatim>\<open>datetime.strptime(s, "%Y-%m-%d")\<close> are
  parameters: \<open>None\<close> is their \<^verbatim>\<open>ValueError\<close>.
\<close>

record builtins =
  py_float :: "string \<Rightarrow> float option"
  strptime :: "string \<Rightarrow> datetime option"

definition parse_date :: "builtins \<Rightarrow> string \<Rightarrow> error + datetime option" where
  "parse_date py v =
     (let v' = strip v in
      if v' = [] then Inr None
      else (case strptime py v' of None \<Rightarrow> Inl ValueError | Some d \<Rightarrow> Inr (Some d)))"

definition normalize_category :: "string \<Rightarrow> error + ProjectCategory" where
  "normalize_category v =
     (let v' = strip v in
      if v' = ''Education'' then Inr Education
      else if v' = ''Health'' then Inr Health
      else if v' = ''Water'' then Inr Water
      else if v' = ''Infrastructure'' then Inr Infrastructure
      else if v' = ''Security'' then Inr Security
      else if v' = ''Environment'' then Inr Environment
      else if v' = ''Other'' then Inr Other
      else Inl ValueError)"

definition normalize_status :: "string \<Rightarrow> error + ProjectStatus" where
  "normalize_status v =
     (let v' = strip v in
      if v' = ''Planned'' then Inr Planned
      else if v' = ''Ongoing'' then Inr Ongoing
      else if v' = ''Completed'' then Inr Completed
      else if v' = ''Flagged'' then Inr Flagged
      else Inl ValueError)"

definition as_float :: "builtins \<Rightarrow> string \<Rightarrow> error + float option" where
  "as_float py v =
     (let v' = strip v in
      if v' = [] then Inr None
      else (case py_float py v' of None \<Rightarrow> Inl ValueError | Some x \<Rightarrow> Inr (Some x)))"

definition as_bool :: "string \<Rightarrow> bool" where
  "as_bool v = (lower (strip v) \<in> set [''1'', ''true'', ''yes'', ''y''])"

text \<open>
  \<^verbatim>\<open>find_existing\<close>: title and constituency code equal, and the document reference
  equal when \<^verbatim>\<open>if source_doc_ref:\<close> holds, null otherwise.
\<close>

definition find_existing ::
  "Project list \<Rightarrow> string \<Rightarrow> string \<Rightarrow> string option \<Rightarrow> Project option" where
  "find_existing table title constituency_code source_doc_ref =
     find (\<lambda>p. p_title p = title \<and> p_constituency_code p = constituency_code
               \<and> (if source_doc_ref \<noteq> None \<and> source_doc_ref \<noteq> Some []
                  then p_source_doc_ref p = source_doc_ref
                  else p_source_doc_ref p = None))
          table"

text \<open>The \<^verbatim>\<open>payload\<close> dictionary of \<^verbatim>\<open>import_csv\<close>, lines 84 to 100.\<close>

record ProjectPayload =
  pl_title :: string
  pl_description :: "string option"
  pl_category :: ProjectCategory
  pl_status :: ProjectStatus
  pl_budget :: float
  pl_spent :: "float option"
  pl_progress :: "float option"
  pl_constituency_code :: string
  pl_start_date :: "datetime option"
  pl_completion_date :: "datetime option"
  pl_is_mock :: bool
  pl_source_name :: "string option"
  pl_source_url :: "string option"
  pl_source_doc_ref :: "string option"

text \<open>An exception ends the evaluation: the later entries are not computed.\<close>

definition bind_err :: "error + 'a \<Rightarrow> ('a \<Rightarrow> error + 'b) \<Rightarrow> error + 'b" where
  "bind_err r f = (case r of Inl e \<Rightarrow> Inl e | Inr x \<Rightarrow> f x)"

text \<open>\<^verbatim>\<open>float(row.get("budget") or 0)\<close>.\<close>

definition budget_of :: "builtins \<Rightarrow> csv_row \<Rightarrow> error + float" where
  "budget_of py row =
     (case row ''budget'' of
        None \<Rightarrow> Inr 0
      | Some v \<Rightarrow>
          if v = [] then Inr 0
          else (case py_float py v of None \<Rightarrow> Inl ValueError | Some x \<Rightarrow> Inr x))"

definition build_payload ::
  "builtins \<Rightarrow> csv_row \<Rightarrow> string \<Rightarrow> string \<Rightarrow> string option \<Rightarrow> error + ProjectPayload" where
  "build_payload py row title constituency_code source_doc_ref =
     bind_err (normalize_category (get_or row ''category'' ''Other'')) (\<lambda>category.
     bind_err (normalize_status (get_or row ''status'' ''Planned'')) (\<lambda>status.
     bind_err (budget_of py row) (\<lambda>budget.
     bind_err (as_float py (get_or row ''spent'' [])) (\<lambda>spent.
     bind_err (as_float py (get_or row ''progress'' [])) (\<lambda>progress.
     bind_err (parse_date py (get_or row ''start_date'' [])) (\<lambda>start_date.
     bind_err (parse_date py (get_or row ''completion_date'' [])) (\<lambda>completion_date.
       Inr \<lparr>pl_title = title,
            pl_description = or_None (strip (get_or row ''description'' [])),
            pl_category = category,
            pl_status = status,
            pl_budget = budget,
            pl_spent = spent,
            pl_progress = progress,
            pl_constituency_code = constituency_code,
            pl_start_date = start_date,
            pl_completion_date = completion_date,
            pl_is_mock = as_bool (get_or row ''is_mock'' ''false''),
            pl_source_name = or_None (strip (get_or row ''source_name'' [])),
            pl_source_url = or_None (strip (get_or row ''source_url'' [])),
            pl_source_doc_ref = source_doc_ref\<rparr>)))))))"

text \<open>\<^verbatim>\<open>Project(**payload)\<close>: the id is the table's next, \<^verbatim>\<open>last_updated\<close> is \<^verbatim>\<open>utcnow()\<close>.\<close>

definition new_project :: "datetime \<Rightarrow> int \<Rightarrow> ProjectPayload \<Rightarrow> Project" where
  "new_project now i payload =
     \<lparr>p_id = i,
      p_title = pl_title payload,
      p_description = pl_description payload,
      p_category = pl_category payload,
      p_status = pl_status payload,
      p_budget = pl_budget payload,
      p_spent = pl_spent payload,
      p_progress = pl_progress payload,
      p_constituency_code = pl_constituency_code payload,
      p_start_date = pl_start_date payload,
      p_completion_date = pl_completion_date payload,
      p_is_mock = pl_is_mock payload,
      p_source_name = pl_source_name payload,
      p_source_url = pl_source_url payload,
      p_source_doc_ref = pl_source_doc_ref payload,
      p_last_updated = now\<rparr>"

text \<open>\<^verbatim>\<open>for k, v in payload.items(): setattr(existing, k, v)\<close>: all fourteen keys.\<close>

definition apply_payload :: "ProjectPayload \<Rightarrow> Project \<Rightarrow> Project" where
  "apply_payload payload existing =
     new_project (p_last_updated existing) (p_id existing) payload"

text \<open>The fourteen fields of a stored project, read back.\<close>

definition payload_of :: "Project \<Rightarrow> ProjectPayload" where
  "payload_of p =
     \<lparr>pl_title = p_title p,
      pl_description = p_description p,
      pl_category = p_category p,
      pl_status = p_status p,
      pl_budget = p_budget p,
      pl_spent = p_spent p,
      pl_progress = p_progress p,
      pl_constituency_code = p_constituency_code p,
      pl_start_date = p_start_date p,
      pl_completion_date = p_completion_date p,
      pl_is_mock = p_is_mock p,
      pl_source_name = p_source_name p,
      pl_source_url = p_source_url p,
      pl_source_doc_ref = p_source_doc_ref p\<rparr>"

text \<open>
  The table \<^verbatim>\<open>Project\<close> as \<^verbatim>\<open>backend/models/project.py\<close> declares it:
  \<^verbatim>\<open>constituency_code\<close> is a foreign key, four text columns carry a \<^verbatim>\<open>max_length\<close>.
  The INSERT checks the row, the UPDATE the columns that changed.
\<close>

definition constituency_exists :: "database \<Rightarrow> string \<Rightarrow> bool" where
  "constituency_exists db code = list_ex (\<lambda>c. c_code c = code) (constituencies db)"

definition project_insert_error :: "backend \<Rightarrow> database \<Rightarrow> Project \<Rightarrow> error option" where
  "project_insert_error b db p =
     (if enforce_varchar b
         \<and> \<not> (length (p_title p) \<le> 255 \<and> fits 120 (p_source_name p)
              \<and> fits 500 (p_source_url p) \<and> fits 120 (p_source_doc_ref p))
      then Some DataError
      else if enforce_fk b \<and> \<not> constituency_exists db (p_constituency_code p)
      then Some IntegrityError
      else None)"

definition project_update_error ::
  "backend \<Rightarrow> database \<Rightarrow> Project \<Rightarrow> Project \<Rightarrow> error option" where
  "project_update_error b db old new =
     (if enforce_varchar b
         \<and> ((p_title new \<noteq> p_title old \<and> 255 < length (p_title new))
            \<or> too_long 120 (p_source_name old) (p_source_name new)
            \<or> too_long 500 (p_source_url old) (p_source_url new)
            \<or> too_long 120 (p_source_doc_ref old) (p_source_doc_ref new))
      then Some DataError
      else if enforce_fk b \<and> p_constituency_code new \<noteq> p_constituency_code old
              \<and> \<not> constituency_exists db (p_constituency_code new)
      then Some IntegrityError
      else None)"

text \<open>
  The session of \<^verbatim>\<open>import_csv\<close>: the table as the open transaction sees it, the
  error the next flush will raise (the row added last is written by the next query's
  autoflush or by the commit), and the two counters.
\<close>

record import_state =
  st_projects :: "Project list"
  st_pending :: "error option"
  st_created :: nat
  st_updated :: nat

text \<open>What the loop reads off a row before anything else, lines 74 to 80.\<close>

definition row_title :: "csv_row \<Rightarrow> string" where
  "row_title row = strip (get_or row ''title'' [])"

definition row_constituency_code :: "csv_row \<Rightarrow> string" where
  "row_constituency_code row = strip (get_or row ''constituency_code'' [])"

definition row_source_doc_ref :: "csv_row \<Rightarrow> string option" where
  "row_source_doc_ref row = or_None (strip (get_or row ''source_doc_ref'' []))"

definition skipped :: "csv_row \<Rightarrow> bool" where
  "skipped row = (row_title row = [] \<or> row_constituency_code row = [])"

definition row_payload :: "builtins \<Rightarrow> csv_row \<Rightarrow> error + ProjectPayload" where
  "row_payload py row =
     build_payload py row (row_title row) (row_constituency_code row) (row_source_doc_ref row)"

text \<open>
  The body of \<^verbatim>\<open>for row in reader\<close>. No statement of it is inside a \<^verbatim>\<open>try\<close>: an
  exception leaves the loop and \<^verbatim>\<open>import_csv\<close>.
\<close>

definition import_row ::
  "backend \<Rightarrow> builtins \<Rightarrow> database \<Rightarrow> datetime \<Rightarrow> csv_row \<Rightarrow> import_state
     \<Rightarrow> error + import_state" where
  "import_row b py db now row st =
     (if skipped row then Inr st
      else
        (case st_pending st of
           Some e \<Rightarrow> Inl e
         | None \<Rightarrow>
             (let existing = find_existing (st_projects st) (row_title row)
                               (row_constituency_code row) (row_source_doc_ref row)
              in bind_err (row_payload py row) (\<lambda>payload.
                   (case existing of
                      Some old \<Rightarrow>
                        (let new = apply_payload payload old in
                         Inr (st\<lparr>st_projects :=
                                   map (\<lambda>p. if p_id p = p_id old then new else p)
                                       (st_projects st),
                                 st_pending := project_update_error b db old new,
                                 st_updated := st_updated st + 1\<rparr>))
                    | None \<Rightarrow>
                        (let new = new_project now (next_id (map p_id (st_projects st))) payload
                         in Inr (st\<lparr>st_projects := st_projects st @ [new],
                                    st_pending := project_insert_error b db new,
                                    st_created := st_created st + 1\<rparr>)))))))"

text \<open>The loop; \<open>clock i\<close> is the time at which row \<open>i\<close> of the file is handled.\<close>

fun import_rows ::
  "backend \<Rightarrow> builtins \<Rightarrow> database \<Rightarrow> (nat \<Rightarrow> datetime) \<Rightarrow> nat \<Rightarrow> csv_row list
     \<Rightarrow> import_state \<Rightarrow> error + import_state" where
  "import_rows b py db clock i [] st = Inr st"
| "import_rows b py db clock i (row # rows) st =
     (case import_row b py db (clock i) row st of
        Inl e \<Rightarrow> Inl e
      | Inr st' \<Rightarrow> import_rows b py db clock (Suc i) rows st')"

text \<open>
  \<^verbatim>\<open>import_csv\<close>: one session, one \<^verbatim>\<open>session.commit()\<close> after the loop. When the
  loop or the commit raises, the session is closed without a commit and the database is
  the one before the call.
\<close>

definition import_csv ::
  "backend \<Rightarrow> builtins \<Rightarrow> (nat \<Rightarrow> datetime) \<Rightarrow> csv_row list \<Rightarrow> database
     \<Rightarrow> (error + nat \<times> nat) \<times> database" where
  "import_csv b py clock rows db =
     (case import_rows b py db clock 0 rows
             \<lparr>st_projects = projects db, st_pending = None, st_created = 0, st_updated = 0\<rparr> of
        Inl e \<Rightarrow> (Inl e, db)
      | Inr st \<Rightarrow>
          (case st_pending st of
             Some e \<Rightarrow> (Inl e, db)
           | None \<Rightarrow> (Inr (st_created st, st_updated st), db\<lparr>projects := st_projects st\<rparr>)))"

text \<open>
  The natural key of a stored project, and what the database accepts of a payload
  under a given backend.
\<close>

definition has_key :: "string \<Rightarrow> string \<Rightarrow> string option \<Rightarrow> Project \<Rightarrow> bool" where
  "has_key title code ref p =
     (p_title p = title \<and> p_constituency_code p = code \<and> p_source_doc_ref p = ref)"

definition storable :: "backend \<Rightarrow> database \<Rightarrow> ProjectPayload \<Rightarrow> bool" where
  "storable b db payload =
     ((if enforce_varchar b
       then length (pl_title payload) \<le> 255 \<and> fits 120 (pl_source_name payload)
            \<and> fits 500 (pl_source_url payload) \<and> fits 120 (pl_source_doc_ref payload)
       else True)
      \<and> (if enforce_fk b then constituency_exists db (pl_constituency_code payload) else True))"

text \<open>The validations of a row, one by one: the calls of the payload that can raise.\<close>

definition fails_validation :: "builtins \<Rightarrow> csv_row \<Rightarrow> bool" where
  "fails_validation py row =
     (isl (normalize_category (get_or row ''category'' ''Other''))
      \<or> isl (normalize_status (get_or row ''status'' ''Planned''))
      \<or> isl (budget_of py row)
      \<or> isl (as_float py (get_or row ''spent'' []))
      \<or> isl (as_float py (get_or row ''progress'' []))
      \<or> isl (parse_date py (get_or row ''start_date'' []))
      \<or> isl (parse_date py (get_or row ''completion_date'' [])))"

section \<open>Access Guard: \<^verbatim>\<open>backend/core/auth.py\<close>, \<^verbatim>\<open>backend/api/auth_router.py\<close>\<close>

text \<open>
  The claims of a token: the subject and the expiry. \<^verbatim>\<open>jose.jwt\<close>, argon2 and the
  settings are parameters: \<open>jwt_decode now token\<close> is \<open>None\<close> where
  \<^verbatim>\<open>jwt.decode\<close> raises \<^verbatim>\<open>JWTError\<close> (bad signature, expired at \<open>now\<close>). Time is
  counted in seconds.
\<close>

record jwt_claims =
  jc_sub :: "string option"
  jc_exp :: "datetime option"

record auth_env =
  jwt_encode :: "jwt_claims \<Rightarrow> string"
  jwt_decode :: "datetime \<Rightarrow> string \<Rightarrow> jwt_claims option"
  ph_verify :: "string \<Rightarrow> string \<Rightarrow> bool"
  access_token_expire_minutes :: int

definition create_access_token ::
  "auth_env \<Rightarrow> datetime \<Rightarrow> jwt_claims \<Rightarrow> int option \<Rightarrow> string" where
  "create_access_token env now data expires_delta =
     (let expire =
            (case expires_delta of
               Some d \<Rightarrow> if d \<noteq> 0 then now + d else now + 60 * access_token_expire_minutes env
             | None \<Rightarrow> now + 60 * access_token_expire_minutes env)
      in jwt_encode env (data\<lparr>jc_exp := Some expire\<rparr>))"

definition credentials_exception :: error where
  "credentials_exception = HTTPException 401 ''Could not validate credentials''"

definition get_current_user :: "auth_env \<Rightarrow> datetime \<Rightarrow> string \<Rightarrow> database \<Rightarrow> error + User" where
  "get_current_user env now token db =
     (case jwt_decode env now token of
        None \<Rightarrow> Inl credentials_exception
      | Some payload \<Rightarrow>
          (case jc_sub payload of
             None \<Rightarrow> Inl credentials_exception
           | Some username \<Rightarrow>
               if username = [] then Inl credentials_exception
               else
                 (case find (\<lambda>u. u_username u = username) (users db) of
                    None \<Rightarrow> Inl credentials_exception
                  | Some user \<Rightarrow>
                      if u_status user = disabled
                      then Inl (HTTPException 403 ''Account disabled'')
                      else Inr user)))"

definition require_admin :: "auth_env \<Rightarrow> datetime \<Rightarrow> string \<Rightarrow> database \<Rightarrow> error + User" where
  "require_admin env now token db =
     bind_err (get_current_user env now token db) (\<lambda>user.
       if u_role user \<noteq> admin then Inl (HTTPException 403 ''Admin access required'')
       else Inr user)"

text \<open>\<^verbatim>\<open>login\<close>: the token, and \<^verbatim>\<open>last_login\<close> written to the user's row.\<close>

definition login ::
  "auth_env \<Rightarrow> datetime \<Rightarrow> string \<Rightarrow> string \<Rightarrow> database \<Rightarrow> (error + string) \<times> database" where
  "login env now username password db =
     (case find (\<lambda>u. u_username u = username) (users db) of
        None \<Rightarrow> (Inl (HTTPException 401 ''Incorrect username or password''), db)
      | Some user \<Rightarrow>
          if \<not> ph_verify env (u_password_hash user) password
          then (Inl (HTTPException 401 ''Incorrect username or password''), db)
          else
            (let user' = user\<lparr>u_last_login := Some now\<rparr>;
                 db' = db\<lparr>users := map (\<lambda>u. if u_id u = u_id user then user' else u) (users db)\<rparr>
             in (Inr (create_access_token env now
                        \<lparr>jc_sub = Some (u_username user'), jc_exp = None\<rparr> None),
                 db')))"

text \<open>\<^verbatim>\<open>GET /auth/me\<close>: the current user's fields, the password hash left out.\<close>

type_synonym me_response =
  "int \<times> string \<times> string option \<times> string option \<times> UserRole \<times> UserStatus \<times> datetime
     \<times> datetime option"

definition me :: "auth_env \<Rightarrow> datetime \<Rightarrow> string \<Rightarrow> database \<Rightarrow> error + me_response" where
  "me env now token db =
     bind_err (get_current_user env now token db) (\<lambda>current_user.
       Inr (u_id current_user, u_username current_user, u_full_name current_user,
            u_email current_user, u_role current_user, u_status current_user,
            u_created_at current_user, u_last_login current_user))"

section \<open>Example data\<close>

definition strict :: backend where
  "strict = \<lparr>enforce_fk = True, enforce_varchar = True\<rparr>"

definition lax :: backend where
  "lax = \<lparr>enforce_fk = False, enforce_varchar = False\<rparr>"

definition kajiado_north :: Constituency where
  "kajiado_north =
     \<lparr>c_code = ''001'', c_name = ''Kajiado North'', c_county = ''Kajiado'',
      c_mp_name = ''Onesmus Ngogoyo Nguro'', c_population = None, c_pas_score = None\<rparr>"

definition borehole :: Project where
  "borehole =
     \<lparr>p_id = 42, p_title = ''Borehole A'', p_description = None, p_category = Water,
      p_status = Planned, p_budget = 2000000, p_spent = None, p_progress = None,
      p_constituency_code = ''001'', p_start_date = None, p_completion_date = None,
      p_is_mock = False, p_source_name = None, p_source_url = None,
      p_source_doc_ref = None, p_last_updated = 100\<rparr>"

definition aquadrill :: Contractor where
  "aquadrill =
     \<lparr>k_id = 7, k_name = ''AquaDrill Services Ltd'', k_phone = None, k_email = None,
      k_registration_no = Some ''C-10291'', k_address = None, k_created_at = 50\<rparr>"

definition mavuno :: Contractor where
  "mavuno =
     \<lparr>k_id = 9, k_name = ''Mavuno Builders Ltd'', k_phone = None, k_email = None,
      k_registration_no = Some ''C-20911'', k_address = None, k_created_at = 51\<rparr>"

definition db0 :: database where
  "db0 = \<lparr>constituencies = [kajiado_north], projects = [borehole],
          contractors = [aquadrill, mavuno], awards = [], users = []\<rparr>"

definition award_req :: "int \<Rightarrow> int \<Rightarrow> ProcurementAwardCreate" where
  "award_req pid cid =
     \<lparr>ac_project_id = pid, ac_contractor_id = cid, ac_tender_id = Some ''NG-CDF/2025/019'',
      ac_procurement_method = Some ''Open Tender'', ac_contract_value = Some 1900000,
      ac_award_date = Some 20, ac_contractor_share_hint = None,
      ac_performance_flag = False, ac_performance_flag_reason = None\<rparr>"

definition award1 :: ProcurementAward where
  "award1 = (new_award 200 (award_req 42 7))\<lparr>a_id := 1\<rparr>"

definition db1 :: database where
  "db1 = db0\<lparr>awards := [award1]\<rparr>"

definition patch_value :: ProcurementAwardUpdate where
  "patch_value =
     \<lparr>au_contractor_id = None, au_tender_id = None, au_procurement_method = None,
      au_contract_value = Some (Some 2500000), au_award_date = None,
      au_contractor_share_hint = None, au_performance_flag = None,
      au_performance_flag_reason = None\<rparr>"

definition award2 :: ProcurementAward where
  "award2 = (new_award 201 (award_req 42 9))\<lparr>a_id := 2\<rparr>"

definition db2 :: database where
  "db2 = db0\<lparr>awards := [award1, award2]\<rparr>"

definition award99 :: ProcurementAward where
  "award99 = (new_award 200 (award_req 99 7))\<lparr>a_id := 1\<rparr>"

definition award_orphan :: ProcurementAward where
  "award_orphan = (new_award 200 (award_req 42 999))\<lparr>a_id := 1\<rparr>"

definition db_orphan :: database where
  "db_orphan = db0\<lparr>awards := [award_orphan]\<rparr>"

definition clinic :: Project where
  "clinic = borehole\<lparr>p_id := 41, p_title := ''Clinic Y'', p_category := Health,
                     p_last_updated := 90\<rparr>"

definition db_two :: database where
  "db_two = db0\<lparr>projects := [clinic, borehole]\<rparr>"

definition env0 :: auth_env where
  "env0 =
     \<lparr>jwt_encode = (\<lambda>c. case jc_sub c of None \<Rightarrow> ''tok'' | Some n \<Rightarrow> ''tok:'' @ n),
      jwt_decode = (\<lambda>now t. if take 4 t = ''tok:'' \<and> now < 86800
                             then Some \<lparr>jc_sub = Some (drop 4 t), jc_exp = Some 86800\<rparr>
                             else None),
      ph_verify = (\<lambda>h pw. h = ''argon2:'' @ pw),
      access_token_expire_minutes = 1440\<rparr>"

definition mwangi :: User where
  "mwangi =
     \<lparr>u_id = 3, u_username = ''mwangi'', u_password_hash = ''argon2:secret'',
      u_full_name = None, u_email = None, u_role = moderator, u_status = disabled,
      u_created_at = 10, u_last_login = None\<rparr>"

definition db_users :: database where
  "db_users = db0\<lparr>users := [mwangi]\<rparr>"

definition sample_py :: builtins where
  "sample_py =
     \<lparr>py_float = (\<lambda>s. if s = ''2000000'' then Some 2000000
                        else if s = ''3500000'' then Some 3500000 else None),
      strptime = (\<lambda>s. if s = ''2025-03-01'' then Some 1740787200 else None)\<rparr>"

definition clock0 :: "nat \<Rightarrow> datetime" where
  "clock0 i = 1000 + int i"

definition row_bad :: csv_row where
  "row_bad = [''title'' \<mapsto> ''Road X'', ''constituency_code'' \<mapsto> ''001'',
              ''category'' \<mapsto> ''Roads'', ''budget'' \<mapsto> ''2000000'']"

definition row_good :: csv_row where
  "row_good = [''title'' \<mapsto> ''Clinic Y'', ''constituency_code'' \<mapsto> ''001'',
               ''category'' \<mapsto> ''Health'', ''budget'' \<mapsto> ''3500000'']"

definition row_blank :: csv_row where
  "row_blank = [''title'' \<mapsto> ''  '', ''constituency_code'' \<mapsto> ''001'',
                ''category'' \<mapsto> ''Roads'']"

definition row_first :: csv_row where
  "row_first = [''title'' \<mapsto> ''Borehole B'', ''constituency_code'' \<mapsto> ''001'',
                ''category'' \<mapsto> ''Water'', ''budget'' \<mapsto> ''2000000'']"

definition row_second :: csv_row where
  "row_second = [''title'' \<mapsto> '' Borehole B '', ''constituency_code'' \<mapsto> ''001'',
                 ''category'' \<mapsto> ''Water'', ''status'' \<mapsto> ''Ongoing'',
                 ''budget'' \<mapsto> ''3500000'', ''source_doc_ref'' \<mapsto> '' '']"

section \<open>Properties\<close>

subsection \<open>Evaluating the example data\<close>

lemmas example_defs =
  strict_def lax_def db0_def db1_def db2_def award1_def award2_def award99_def award_req_def
  new_award_def kajiado_north_def borehole_def aquadrill_def mavuno_def patch_value_def
  award_orphan_def db_orphan_def clinic_def db_two_def mwangi_def db_users_def

lemmas award_defs =
  create_award_def create_award_check_def insert_award_def next_id_def award_columns_ok_def
  fits_def project_exists_def contractor_exists_def Let_def

subsection \<open>Award Binder\<close>

lemma find_project_award:
  "list_ex (\<lambda>a. a_project_id a = p) xs \<Longrightarrow> \<exists>a. find (\<lambda>a. a_project_id a = p) xs = Some a"
  by (induction xs) auto

lemma find_project_award_None:
  "\<not> list_ex (\<lambda>a. a_project_id a = p) xs \<Longrightarrow> find (\<lambda>a. a_project_id a = p) xs = None"
  by (induction xs) auto

lemma find_by_id:
  "find (\<lambda>a. a_id a = aid) xs = Some award \<Longrightarrow> award \<in> set xs \<and> a_id award = aid"
  by (induction xs) (auto split: if_splits)

lemma pk_unique:
  "distinct (map a_id xs) \<Longrightarrow> x \<in> set xs \<Longrightarrow> y \<in> set xs \<Longrightarrow> a_id x = a_id y \<Longrightarrow> x = y"
  by (induction xs) (auto simp: image_iff)

lemma setattrs_frame: "absent_fields_kept payload award (setattrs payload award)"
  by (simp add: absent_fields_kept_def setattrs_def set_field_def)

lemma absent_fields_kept_refl: "absent_fields_kept payload a a"
  by (simp add: absent_fields_kept_def)

lemma setattrs_present:
  "au_contractor_id payload \<noteq> Some None \<Longrightarrow> present_fields_set payload (setattrs payload award)"
  by (simp add: present_fields_set_def setattrs_def set_field_def split: option.splits)

lemma setattrs_project: "a_project_id (setattrs payload award) = a_project_id award"
  by (simp add: setattrs_def)

lemma update_award_cases:
  assumes "find (\<lambda>a. a_id a = aid) (awards db) = Some award"
    and "update_award b aid payload db = (r, db')"
  shows "(db' = db \<and> (\<exists>e. r = Inl e))
       \<or> (r = Inr (setattrs payload award) \<and> au_contractor_id payload \<noteq> Some None
          \<and> db' = db\<lparr>awards :=
                map (\<lambda>a. if a_id a = aid then setattrs payload award else a) (awards db)\<rparr>)"
  using assms by (auto simp: update_award_def Let_def split: if_splits)

lemma frame_same:
  "list_all2 (\<lambda>old new. if a_id old = aid then absent_fields_kept payload old new else new = old)
     xs xs"
  by (simp add: list_all2_same absent_fields_kept_refl)

lemma frame_replaced:
  assumes "distinct (map a_id xs)" and "award \<in> set xs" and "a_id award = aid"
  shows "list_all2
           (\<lambda>old new. if a_id old = aid then absent_fields_kept payload old new else new = old)
           xs (map (\<lambda>a. if a_id a = aid then setattrs payload award else a) xs)"
proof -
  have "\<And>x. x \<in> set xs \<Longrightarrow> a_id x = aid \<Longrightarrow> x = award"
    using assms pk_unique by blast
  then show ?thesis
    by (auto simp: list_all2_map2 list_all2_same setattrs_frame)
qed

text \<open>
  C2. Whenever some award is stored for the payload's project, \<^verbatim>\<open>create_award\<close> fails
  with the 400 "This project already has an award", whatever the contractor and the other
  fields of the payload; the error comes from the pre-check, which runs before the
  insert, and the database is returned as it was.
\<close>

theorem create_award_duplicate:
  assumes "list_ex (\<lambda>a. a_project_id a = ac_project_id payload) (awards db)"
  shows "create_award_check payload db
           = Some (HTTPException 400 ''This project already has an award'')
       \<and> create_award b now payload db
           = (Inl (HTTPException 400 ''This project already has an award''), db)"
proof -
  from find_project_award [OF assms] obtain a
    where "find (\<lambda>a. a_project_id a = ac_project_id payload) (awards db) = Some a" ..
  then show ?thesis by (simp add: create_award_def create_award_check_def)
qed

theorem create_award_duplicate_witness:
  "create_award strict 300 (award_req 42 9) db1
     = (Inl (HTTPException 400 ''This project already has an award''), db1)"
proof -
  have h: "list_ex (\<lambda>a. a_project_id a = ac_project_id (award_req 42 9)) (awards db1)"
    by (simp add: example_defs)
  from create_award_duplicate [OF h, of strict 300] show ?thesis by simp
qed

text \<open>
  Requests served one after the other keep one award per project: the pre-check is
  the only thing that does, and it does so only when nothing runs between it and the
  insert.
\<close>

lemma find_project_award_none_mem:
  "find (\<lambda>a. a_project_id a = p) xs = None \<Longrightarrow> a \<in> set xs \<Longrightarrow> a_project_id a \<noteq> p"
  by (induction xs) (auto split: if_splits)

lemma create_award_sequential_invariant:
  assumes "distinct (map a_project_id (awards db))"
    and "create_award b now payload db = (r, db')"
  shows "distinct (map a_project_id (awards db'))"
proof (cases "find (\<lambda>a. a_project_id a = ac_project_id payload) (awards db)")
  case None
  then have "ac_project_id payload \<notin> a_project_id ` set (awards db)"
    by (auto dest: find_project_award_none_mem)
  with assms None show ?thesis
    by (auto simp: create_award_def create_award_check_def insert_award_def new_award_def Let_def
             split: if_splits)
next
  case (Some a)
  with assms show ?thesis
    by (simp add: create_award_def create_award_check_def)
qed

text \<open>
  C1. The table does not declare \<^verbatim>\<open>project_id\<close> unique, and nothing maps a
  constraint violation to the duplicate error. Two requests for project 42 that both ran
  the pre-check on the empty table pass it; their inserts, one after the other, are both
  accepted by the strictest database, and project 42 ends with two awards.
\<close>

theorem create_award_race_two_awards:
  "create_award_check (award_req 42 7) db0 = None
   \<and> create_award_check (award_req 42 9) db0 = None
   \<and> insert_award strict (new_award 200 (award_req 42 7)) db0 = (Inr award1, db1)
   \<and> insert_award strict (new_award 201 (award_req 42 9)) db1 = (Inr award2, db2)
   \<and> map a_project_id (awards db2) = [42, 42]"
  by (simp add: example_defs award_defs)

text \<open>
  C4, as the claim states it, fails: project 99 does not exist, and \<^verbatim>\<open>create_award\<close>
  for it either dies in the commit with the driver's error (foreign keys enforced) or
  stores the award (foreign keys not enforced). Neither is a typed not-found error.
\<close>

theorem create_award_unknown_project_counterexample:
  "create_award strict 200 (award_req 99 7) db0 = (Inl IntegrityError, db0)
   \<and> create_award lax 200 (award_req 99 7) db0 = (Inr award99, db0\<lparr>awards := [award99]\<rparr>)"
  by (simp add: example_defs award_defs)

text \<open>
  C4, amended. \<^verbatim>\<open>create_award\<close> has no existence check of its own: for a project id
  that no project and no award carries, the pre-check passes and the request is exactly
  the storage insert. Where the database enforces the foreign keys the insert is refused
  with the driver's error (\<open>IntegrityError\<close>, or \<open>DataError\<close> for an over-long
  text column, which is checked first) and the database is unchanged; where it enforces
  neither, the award is stored.
\<close>

theorem create_award_unknown_project:
  assumes "\<not> project_exists db (ac_project_id payload)"
    and "\<not> list_ex (\<lambda>a. a_project_id a = ac_project_id payload) (awards db)"
  shows "create_award_check payload db = None
       \<and> create_award b now payload db = insert_award b (new_award now payload) db
       \<and> (enforce_fk b \<longrightarrow>
            create_award b now payload db
              = (Inl (if enforce_varchar b \<and> \<not> award_columns_ok (new_award now payload)
                      then DataError else IntegrityError), db))
       \<and> (\<not> enforce_fk b \<and> \<not> enforce_varchar b \<longrightarrow>
            (\<exists>award. create_award b now payload db
                        = (Inr award, db\<lparr>awards := awards db @ [award]\<rparr>)
                     \<and> a_project_id award = ac_project_id payload))"
proof -
  have chk: "create_award_check payload db = None"
    using assms(2) by (simp add: create_award_check_def find_project_award_None)
  then have ins: "create_award b now payload db = insert_award b (new_award now payload) db"
    by (simp add: create_award_def)
  have cols: "\<And>i. award_columns_ok ((new_award now payload)\<lparr>a_id := i\<rparr>)
                    = award_columns_ok (new_award now payload)"
    by (simp add: award_columns_ok_def)
  have pid: "a_project_id (new_award now payload) = ac_project_id payload"
    by (simp add: new_award_def)
  have strict_case: "enforce_fk b \<Longrightarrow>
      insert_award b (new_award now payload) db
        = (Inl (if enforce_varchar b \<and> \<not> award_columns_ok (new_award now payload)
                then DataError else IntegrityError), db)"
    using assms(1) by (simp add: insert_award_def Let_def cols pid)
  have lax_case: "\<not> enforce_fk b \<and> \<not> enforce_varchar b \<Longrightarrow>
      \<exists>award. insert_award b (new_award now payload) db
                 = (Inr award, db\<lparr>awards := awards db @ [award]\<rparr>)
             \<and> a_project_id award = ac_project_id payload"
    by (simp add: insert_award_def Let_def pid)
  show ?thesis using chk ins strict_case lax_case by simp
qed

theorem create_award_unknown_project_witness:
  "create_award_check (award_req 99 7) db0 = None
   \<and> create_award strict 200 (award_req 99 7) db0 = (Inl IntegrityError, db0)
   \<and> (\<exists>award. create_award lax 200 (award_req 99 7) db0
                   = (Inr award, db0\<lparr>awards := awards db0 @ [award]\<rparr>)
                \<and> a_project_id award = 99)"
proof -
  have h1: "\<not> project_exists db0 (ac_project_id (award_req 99 7))"
    by (simp add: example_defs project_exists_def)
  have h2: "\<not> list_ex (\<lambda>a. a_project_id a = ac_project_id (award_req 99 7)) (awards db0)"
    by (simp add: example_defs)
  have cols: "award_columns_ok (new_award 200 (award_req 99 7))"
    by (simp add: example_defs award_columns_ok_def fits_def)
  have fk: "enforce_fk strict" and nofk: "\<not> enforce_fk lax \<and> \<not> enforce_varchar lax"
    by (simp_all add: strict_def lax_def)
  have pid: "ac_project_id (award_req 99 7) = 99"
    by (simp add: award_req_def)
  from create_award_unknown_project [OF h1 h2, of strict 200] fk
  have "create_award_check (award_req 99 7) db0 = None
        \<and> create_award strict 200 (award_req 99 7) db0
          = (Inl (if enforce_varchar strict \<and> \<not> award_columns_ok (new_award 200 (award_req 99 7))
                  then DataError else IntegrityError), db0)"
    by blast
  moreover from create_award_unknown_project [OF h1 h2, of lax 200] nofk
  have "\<exists>award. create_award lax 200 (award_req 99 7) db0
                   = (Inr award, db0\<lparr>awards := awards db0 @ [award]\<rparr>)
                \<and> a_project_id award = ac_project_id (award_req 99 7)"
    by blast
  ultimately show ?thesis using cols by (simp add: pid)
qed

text \<open>
  C8. With the primary key unique, after \<^verbatim>\<open>update_award\<close> every award of another id is
  the row it was, and the award of the given id keeps every field the request left out
  (and its id, project and creation time); no other table changes. When the call
  succeeds the fields the request set hold the request's values; when it fails nothing
  changed. An id that no award carries gives the 404 "Award not found" and the database
  as it was.
\<close>

theorem update_award_patch:
  assumes pk: "distinct (map a_id (awards db))"
    and run: "update_award b aid payload db = (r, db')"
  shows "list_all2
           (\<lambda>old new. if a_id old = aid then absent_fields_kept payload old new else new = old)
           (awards db) (awards db')
       \<and> db' = db\<lparr>awards := awards db'\<rparr>
       \<and> (case r of
            Inr new \<Rightarrow> present_fields_set payload new \<and> new \<in> set (awards db')
          | Inl e \<Rightarrow> db' = db)
       \<and> (\<not> list_ex (\<lambda>a. a_id a = aid) (awards db) \<longrightarrow>
            r = Inl (HTTPException 404 ''Award not found'') \<and> db' = db)"
proof (cases "find (\<lambda>a. a_id a = aid) (awards db)")
  case None
  then have "update_award b aid payload db = (Inl (HTTPException 404 ''Award not found''), db)"
    by (simp add: update_award_def)
  with run have "r = Inl (HTTPException 404 ''Award not found'')" and "db' = db" by simp_all
  then show ?thesis by (simp add: frame_same)
next
  case (Some award)
  then have mem: "award \<in> set (awards db)" and key: "a_id award = aid"
    using find_by_id by blast+
  then have ex: "list_ex (\<lambda>a. a_id a = aid) (awards db)"
    by (auto simp: list_ex_iff)
  from update_award_cases [OF Some run] show ?thesis
  proof
    assume "db' = db \<and> (\<exists>e. r = Inl e)"
    then show ?thesis using ex by (auto simp: frame_same)
  next
    assume ok: "r = Inr (setattrs payload award) \<and> au_contractor_id payload \<noteq> Some None
          \<and> db' = db\<lparr>awards :=
                map (\<lambda>a. if a_id a = aid then setattrs payload award else a) (awards db)\<rparr>"
    then have aw: "awards db'
        = map (\<lambda>a. if a_id a = aid then setattrs payload award else a) (awards db)"
      by simp
    have "setattrs payload award \<in> set (awards db')"
      using mem key by (auto simp: aw image_iff)
    then show ?thesis
      using ok ex frame_replaced [OF pk mem key, of payload] setattrs_present [of payload award]
      by (simp add: aw)
  qed
qed

theorem update_award_patch_witness:
  "update_award strict 1 patch_value db1
     = (Inr (award1\<lparr>a_contract_value := Some 2500000\<rparr>),
        db1\<lparr>awards := [award1\<lparr>a_contract_value := Some 2500000\<rparr>]\<rparr>)
   \<and> list_all2
       (\<lambda>old new. if a_id old = 1 then absent_fields_kept patch_value old new else new = old)
       [award1] [award1\<lparr>a_contract_value := Some 2500000\<rparr>]
   \<and> update_award strict 5 patch_value db1 = (Inl (HTTPException 404 ''Award not found''), db1)"
proof -
  have pk: "distinct (map a_id (awards db1))"
    by (simp add: example_defs)
  have run: "update_award strict 1 patch_value db1
     = (Inr (award1\<lparr>a_contract_value := Some 2500000\<rparr>),
        db1\<lparr>awards := [award1\<lparr>a_contract_value := Some 2500000\<rparr>]\<rparr>)"
    by (simp add: example_defs update_award_def setattrs_def set_field_def
          update_too_long_def too_long_def Let_def)
  have none: "\<not> list_ex (\<lambda>a. a_id a = 5) (awards db1)"
    by (simp add: example_defs)
  have run5: "update_award strict 5 patch_value db1
                = (fst (update_award strict 5 patch_value db1),
                   snd (update_award strict 5 patch_value db1))"
    by simp
  have aw: "awards db1 = [award1]"
    by (simp add: db1_def)
  from update_award_patch [OF pk run] update_award_patch [OF pk run5] none run aw
  show ?thesis by (simp add: prod_eq_iff)
qed

text \<open>
  C10. With the primary key unique, \<^verbatim>\<open>update_award\<close> leaves the \<^verbatim>\<open>project_id\<close> of
  every stored award as it was, whatever the payload: the column read down the table is
  the same list before and after, so a table with one award per project still has one
  award per project, and the award returned is bound to the project it was bound to.
\<close>

theorem update_award_keeps_project:
  assumes pk: "distinct (map a_id (awards db))"
    and run: "update_award b aid payload db = (r, db')"
  shows "map a_project_id (awards db') = map a_project_id (awards db)
       \<and> (distinct (map a_project_id (awards db))
            \<longrightarrow> distinct (map a_project_id (awards db')))
       \<and> (case r of
            Inr new \<Rightarrow>
              list_ex (\<lambda>old. a_id old = aid \<and> a_project_id old = a_project_id new) (awards db)
          | Inl e \<Rightarrow> True)"
proof (cases "find (\<lambda>a. a_id a = aid) (awards db)")
  case None
  with run show ?thesis by (auto simp: update_award_def)
next
  case (Some award)
  then have mem: "award \<in> set (awards db)" and key: "a_id award = aid"
    using find_by_id by blast+
  have same: "\<And>x. x \<in> set (awards db) \<Longrightarrow> a_id x = aid \<Longrightarrow> x = award"
    using pk mem key pk_unique by blast
  from update_award_cases [OF Some run] show ?thesis
  proof
    assume "db' = db \<and> (\<exists>e. r = Inl e)"
    then show ?thesis by auto
  next
    assume ok: "r = Inr (setattrs payload award) \<and> au_contractor_id payload \<noteq> Some None
          \<and> db' = db\<lparr>awards :=
                map (\<lambda>a. if a_id a = aid then setattrs payload award else a) (awards db)\<rparr>"
    have "map a_project_id
            (map (\<lambda>a. if a_id a = aid then setattrs payload award else a) (awards db))
            = map a_project_id (awards db)"
      using same by (auto simp: setattrs_project)
    with ok have col: "map a_project_id (awards db') = map a_project_id (awards db)"
      by simp
    have ret: "list_ex
        (\<lambda>old. a_id old = aid \<and> a_project_id old = a_project_id (setattrs payload award))
        (awards db)"
      using mem key by (auto simp: list_ex_iff setattrs_project)
    from ok have r: "r = Inr (setattrs payload award)"
      by simp
    show ?thesis using ret by (simp add: col r)
  qed
qed

theorem update_award_keeps_project_witness:
  "map a_project_id (awards (snd (update_award strict 1 patch_value db1))) = [42]
   \<and> distinct (map a_project_id (awards (snd (update_award strict 1 patch_value db1))))"
proof -
  have pk: "distinct (map a_id (awards db1))"
    by (simp add: example_defs)
  have run: "update_award strict 1 patch_value db1
                = (fst (update_award strict 1 patch_value db1),
                   snd (update_award strict 1 patch_value db1))"
    by simp
  have col: "map a_project_id (awards db1) = [42]"
    by (simp add: example_defs)
  then have "distinct (map a_project_id (awards db1))"
    by simp
  with update_award_keeps_project [OF pk run] col show ?thesis by simp
qed

subsection \<open>Project View Assembler\<close>

lemma filter_pk:
  "distinct (map key xs) \<Longrightarrow> x \<in> set xs \<Longrightarrow> filter (\<lambda>y. key y = key x) xs = [x]"
  by (induction xs) (auto simp: image_iff filter_empty_conv)

lemma project_rows_fst: "r \<in> set (project_rows db p) \<Longrightarrow> fst r = p"
  by (auto simp: project_rows_def)

lemma filter_project_rows:
  "filter (\<lambda>r. p_id (fst r) = pid) (project_rows db p)
     = (if p_id p = pid then project_rows db p else [])"
  by (auto simp: filter_empty_conv filter_id_conv dest: project_rows_fst)

lemma filter_concat_rows:
  "filter (\<lambda>r. p_id (fst r) = pid) (concat (map (project_rows db) ps))
     = concat (map (project_rows db) (filter (\<lambda>p. p_id p = pid) ps))"
  by (induction ps) (simp_all add: filter_project_rows)

lemma rows_of_stored_project:
  assumes "distinct (map p_id (projects db))" and "p \<in> set (projects db)"
    and "distinct (map c_code (constituencies db))" and "c \<in> set (constituencies db)"
    and "c_code c = p_constituency_code p"
  shows "filter (\<lambda>r. p_id (fst r) = p_id p) (select_joined db)
           = map (\<lambda>(a, k). (p, c, a, k)) (join_award db p)"
proof -
  have "filter (\<lambda>q. p_id q = p_id p) (projects db) = [p]"
    using assms(1,2) by (rule filter_pk)
  moreover have "filter (\<lambda>d. c_code d = c_code c) (constituencies db) = [c]"
    using assms(3,4) by (rule filter_pk)
  ultimately show ?thesis
    using assms(5) by (simp add: select_joined_def filter_concat_rows project_rows_def)
qed

lemma find_filter_Cons: "find P xs = Some a \<Longrightarrow> \<exists>rest. filter P xs = a # rest"
  by (induction xs) (auto split: if_splits)

lemma filter_none: "\<not> list_ex P xs \<Longrightarrow> filter P xs = []"
  by (simp add: list_ex_iff filter_empty_conv)

lemma join_award_none:
  "\<not> list_ex (\<lambda>a. a_project_id a = p_id p) (awards db) \<Longrightarrow> join_award db p = [(None, None)]"
  by (simp add: join_award_def filter_none)

lemma join_award_orphan:
  assumes "find (\<lambda>a. a_project_id a = p_id p) (awards db) = Some a"
    and "\<not> contractor_exists db (a_contractor_id a)"
  shows "\<exists>rest. join_award db p = (Some a, None) # rest"
proof -
  from find_filter_Cons [OF assms(1)] obtain rest
    where "filter (\<lambda>a. a_project_id a = p_id p) (awards db) = a # rest" ..
  moreover have "join_contractor db a = [None]"
    using assms(2) by (simp add: join_contractor_def contractor_exists_def filter_none)
  ultimately show ?thesis by (simp add: join_award_def)
qed

lemma join_award_nonempty: "join_award db p \<noteq> []"
  by (auto simp: join_award_def join_contractor_def split: list.splits)

text \<open>
  The join with \<^verbatim>\<open>Constituency\<close> is an inner one: a stored project whose constituency
  code no row carries has no row in the join, and \<^verbatim>\<open>read_project\<close> answers 404.
\<close>

lemma read_project_dangling_constituency:
  assumes "distinct (map p_id (projects db))" and "p \<in> set (projects db)"
    and "\<not> constituency_exists db (p_constituency_code p)"
  shows "read_project (p_id p) db = Inl (HTTPException 404 ''Project not found'')"
proof -
  have "filter (\<lambda>q. p_id q = p_id p) (projects db) = [p]"
    using assms(1,2) by (rule filter_pk)
  moreover have "project_rows db p = []"
    using assms(3) by (simp add: project_rows_def constituency_exists_def filter_none)
  ultimately show ?thesis
    by (simp add: read_project_def select_joined_def filter_concat_rows)
qed

text \<open>
  C3. With the primary keys of \<^verbatim>\<open>Project\<close> and \<^verbatim>\<open>Constituency\<close> unique, for a
  stored project \<open>p\<close> whose constituency row \<open>c\<close> is stored, \<^verbatim>\<open>read_project\<close> of
  \<open>p\<close>'s id returns a view of \<open>p\<close> whose constituency name, county and MP name are
  those of \<open>c\<close>. When no award is stored for \<open>p\<close>, the contractor name and the four
  award fields of the view are null. When the award of \<open>p\<close> (the first one stored,
  should there be several) names a contractor that is not stored, the contractor name is
  null and the four award fields are the award's.
\<close>

theorem read_project_view:
  assumes "distinct (map p_id (projects db))" and "p \<in> set (projects db)"
    and "distinct (map c_code (constituencies db))" and "c \<in> set (constituencies db)"
    and "c_code c = p_constituency_code p"
  shows "\<exists>v. read_project (p_id p) db = Inr v
           \<and> v_project v = p
           \<and> constituency_name v = c_name c \<and> county v = c_county c \<and> mp_name v = c_mp_name c
           \<and> (\<not> list_ex (\<lambda>a. a_project_id a = p_id p) (awards db) \<longrightarrow>
                contractor_name v = None \<and> tender_id v = None \<and> procurement_method v = None
                \<and> contract_value v = None \<and> award_date v = None)
           \<and> (\<forall>a. find (\<lambda>a. a_project_id a = p_id p) (awards db) = Some a
                    \<and> \<not> contractor_exists db (a_contractor_id a) \<longrightarrow>
                contractor_name v = None \<and> tender_id v = a_tender_id a
                \<and> procurement_method v = a_procurement_method a
                \<and> contract_value v = a_contract_value a \<and> award_date v = a_award_date a)"
proof -
  note rows = rows_of_stored_project [OF assms]
  obtain ak rest where ja: "join_award db p = ak # rest"
    using join_award_nonempty [of db p] by (cases "join_award db p") auto
  obtain a k where ak: "ak = (a, k)" by (cases ak)
  let ?v = "to_view (p, c, a, k)"
  have rp: "read_project (p_id p) db = Inr ?v"
    by (simp add: read_project_def rows ja ak)
  have base: "v_project ?v = p \<and> constituency_name ?v = c_name c \<and> county ?v = c_county c
              \<and> mp_name ?v = c_mp_name c"
    by (simp add: to_view_def)
  have none: "\<not> list_ex (\<lambda>a. a_project_id a = p_id p) (awards db) \<Longrightarrow>
              a = None \<and> k = None"
    using join_award_none [of p db] ja ak by simp
  have orphan: "\<And>a'. find (\<lambda>a. a_project_id a = p_id p) (awards db) = Some a' \<Longrightarrow>
                 \<not> contractor_exists db (a_contractor_id a') \<Longrightarrow> a = Some a' \<and> k = None"
    using join_award_orphan [of p db] ja ak by fastforce
  have "\<not> list_ex (\<lambda>a. a_project_id a = p_id p) (awards db) \<longrightarrow>
                contractor_name ?v = None \<and> tender_id ?v = None \<and> procurement_method ?v = None
                \<and> contract_value ?v = None \<and> award_date ?v = None"
    using none by (auto simp: to_view_def)
  moreover have "\<forall>a. find (\<lambda>a. a_project_id a = p_id p) (awards db) = Some a
                    \<and> \<not> contractor_exists db (a_contractor_id a) \<longrightarrow>
                contractor_name ?v = None \<and> tender_id ?v = a_tender_id a
                \<and> procurement_method ?v = a_procurement_method a
                \<and> contract_value ?v = a_contract_value a \<and> award_date ?v = a_award_date a"
    using orphan by (auto simp: to_view_def)
  ultimately show ?thesis using rp base by blast
qed

theorem read_project_view_witness:
  "(\<exists>v. read_project 42 db_orphan = Inr v
         \<and> constituency_name v = ''Kajiado North'' \<and> county v = ''Kajiado''
         \<and> mp_name v = ''Onesmus Ngogoyo Nguro''
         \<and> contractor_name v = None \<and> tender_id v = Some ''NG-CDF/2025/019''
         \<and> contract_value v = Some 1900000)
   \<and> (\<exists>v. read_project 42 db0 = Inr v
         \<and> constituency_name v = ''Kajiado North''
         \<and> contractor_name v = None \<and> tender_id v = None \<and> procurement_method v = None
         \<and> contract_value v = None \<and> award_date v = None)"
proof -
  have h1: "distinct (map p_id (projects db_orphan))"
    and h2: "borehole \<in> set (projects db_orphan)"
    and h3: "distinct (map c_code (constituencies db_orphan))"
    and h4: "kajiado_north \<in> set (constituencies db_orphan)"
    and h5: "c_code kajiado_north = p_constituency_code borehole"
    by (simp_all add: db_orphan_def db0_def borehole_def kajiado_north_def)
  have award: "find (\<lambda>a. a_project_id a = p_id borehole) (awards db_orphan) = Some award_orphan"
    by (simp add: example_defs)
  have gone: "\<not> contractor_exists db_orphan (a_contractor_id award_orphan)"
    by (simp add: example_defs contractor_exists_def)
  have pid: "p_id borehole = 42"
    by (simp add: borehole_def)
  from read_project_view [OF h1 h2 h3 h4 h5] obtain v
    where v: "read_project (p_id borehole) db_orphan = Inr v"
      "constituency_name v = c_name kajiado_north" "county v = c_county kajiado_north"
      "mp_name v = c_mp_name kajiado_north"
      "\<forall>a. find (\<lambda>a. a_project_id a = p_id borehole) (awards db_orphan) = Some a
            \<and> \<not> contractor_exists db_orphan (a_contractor_id a) \<longrightarrow>
          contractor_name v = None \<and> tender_id v = a_tender_id a
          \<and> procurement_method v = a_procurement_method a
          \<and> contract_value v = a_contract_value a \<and> award_date v = a_award_date a"
    by blast
  from v(5) award gone have "contractor_name v = None \<and> tender_id v = a_tender_id award_orphan
      \<and> contract_value v = a_contract_value award_orphan"
    by blast
  with v(1-4) have first: "\<exists>v. read_project 42 db_orphan = Inr v
         \<and> constituency_name v = ''Kajiado North'' \<and> county v = ''Kajiado''
         \<and> mp_name v = ''Onesmus Ngogoyo Nguro''
         \<and> contractor_name v = None \<and> tender_id v = Some ''NG-CDF/2025/019''
         \<and> contract_value v = Some 1900000"
    by (simp add: pid kajiado_north_def award_orphan_def new_award_def award_req_def)
  have g1: "distinct (map p_id (projects db0))"
    and g2: "borehole \<in> set (projects db0)"
    and g3: "distinct (map c_code (constituencies db0))"
    and g4: "kajiado_north \<in> set (constituencies db0)"
    by (simp_all add: db0_def borehole_def kajiado_north_def)
  have bare: "\<not> list_ex (\<lambda>a. a_project_id a = p_id borehole) (awards db0)"
    by (simp add: db0_def)
  from read_project_view [OF g1 g2 g3 g4 h5] obtain w
    where w: "read_project (p_id borehole) db0 = Inr w"
      "constituency_name w = c_name kajiado_north"
      "\<not> list_ex (\<lambda>a. a_project_id a = p_id borehole) (awards db0) \<longrightarrow>
          contractor_name w = None \<and> tender_id w = None \<and> procurement_method w = None
          \<and> contract_value w = None \<and> award_date w = None"
    by blast
  from w bare have second: "\<exists>v. read_project 42 db0 = Inr v
         \<and> constituency_name v = ''Kajiado North''
         \<and> contractor_name v = None \<and> tender_id v = None \<and> procurement_method v = None
         \<and> contract_value v = None \<and> award_date v = None"
    by (simp add: pid kajiado_north_def)
  from first second show ?thesis by blast
qed

lemma sort_choice_fallback:
  "s \<notin> {''id_asc'', ''id_desc'', ''last_updated_asc'', ''last_updated_desc'', ''title_asc'',
         ''title_desc''}
     \<Longrightarrow> sort_choice s = sort_choice ''last_updated_desc''"
  by (simp add: sort_choice_def)

lemma v_project_to_view: "v_project (to_view r) = fst r"
  by (cases r) (simp add: to_view_def)

lemma sorted_page: "sorted (map f (take n (drop m (sort_key f xs))))"
proof -
  have "map f (take n (drop m (sort_key f xs))) = take n (drop m (map f (sort_key f xs)))"
    by (simp add: take_map drop_map)
  then show ?thesis
    by (simp add: sorted_wrt_take sorted_wrt_drop)
qed

text \<open>
  C7. A \<^verbatim>\<open>sort\<close> argument that is none of the six keys, absent included, gives the
  result of \<^verbatim>\<open>last_updated_desc\<close>, errors included; the page returned under
  \<^verbatim>\<open>title_asc\<close> has its titles in non-decreasing lexicographic order; and the six
  keys select six different pairs of column and direction.
\<close>

theorem read_projects_sort:
  "(sort_arg \<notin> {Some ''id_asc'', Some ''id_desc'', Some ''last_updated_asc'',
                 Some ''last_updated_desc'', Some ''title_asc'', Some ''title_desc''} \<longrightarrow>
      read_projects db cc category status sort_arg offset limit
        = read_projects db cc category status (Some ''last_updated_desc'') offset limit)
   \<and> (read_projects db cc category status (Some ''title_asc'') offset limit = Inr page \<longrightarrow>
        sorted (map (\<lambda>v. p_title (v_project v)) page))
   \<and> distinct (map sort_choice [''id_asc'', ''id_desc'', ''last_updated_asc'',
                                 ''last_updated_desc'', ''title_asc'', ''title_desc''])"
proof -
  have fallback: "sort_arg \<notin> {Some ''id_asc'', Some ''id_desc'', Some ''last_updated_asc'',
                 Some ''last_updated_desc'', Some ''title_asc'', Some ''title_desc''} \<Longrightarrow>
      read_projects db cc category status sort_arg offset limit
        = read_projects db cc category status (Some ''last_updated_desc'') offset limit"
  proof (cases sort_arg)
    case None
    then show ?thesis by (simp add: read_projects_def)
  next
    case (Some s)
    assume "sort_arg \<notin> {Some ''id_asc'', Some ''id_desc'', Some ''last_updated_asc'',
                 Some ''last_updated_desc'', Some ''title_asc'', Some ''title_desc''}"
    with Some have "sort_choice s = sort_choice ''last_updated_desc''"
      by (intro sort_choice_fallback) auto
    with Some show ?thesis by (simp add: read_projects_def)
  qed
  have titles: "read_projects db cc category status (Some ''title_asc'') offset limit = Inr page
        \<Longrightarrow> sorted (map (\<lambda>v. p_title (v_project v)) page)"
  proof -
    assume run: "read_projects db cc category status (Some ''title_asc'') offset limit = Inr page"
    have choice: "sort_choice ''title_asc'' = (Sort_title, asc)"
      by (simp add: sort_choice_def)
    from run have "page = map to_view (take (nat limit) (drop (nat offset)
        (sort_key (\<lambda>r. p_title (fst r))
           (filter (where_filters cc category status) (select_joined db)))))"
      by (auto simp: read_projects_def choice order_by_def directed_def Let_def split: if_splits)
    then have "map (\<lambda>v. p_title (v_project v)) page
       = map (\<lambda>r. p_title (fst r)) (take (nat limit) (drop (nat offset)
           (sort_key (\<lambda>r. p_title (fst r))
              (filter (where_filters cc category status) (select_joined db)))))"
      by (simp add: comp_def v_project_to_view)
    then show ?thesis by (simp only: sorted_page)
  qed
  have six: "distinct (map sort_choice [''id_asc'', ''id_desc'', ''last_updated_asc'',
                                 ''last_updated_desc'', ''title_asc'', ''title_desc''])"
    by (simp add: sort_choice_def)
  from fallback titles six show ?thesis by blast
qed

theorem read_projects_sort_witness:
  "read_projects db_two None None None (Some ''newest'') 0 20
     = read_projects db_two None None None (Some ''last_updated_desc'') 0 20
   \<and> read_projects db_two None None None (Some ''title_asc'') 0 20
       = Inr [to_view (borehole, kajiado_north, None, None),
              to_view (clinic, kajiado_north, None, None)]
   \<and> sorted [p_title borehole, p_title clinic]"
proof -
  have unknown: "Some ''newest'' \<notin> {Some ''id_asc'', Some ''id_desc'', Some ''last_updated_asc'',
                 Some ''last_updated_desc'', Some ''title_asc'', Some ''title_desc''}"
    by simp
  have run: "read_projects db_two None None None (Some ''title_asc'') 0 20
       = Inr [to_view (borehole, kajiado_north, None, None),
              to_view (clinic, kajiado_north, None, None)]"
    by (simp add: read_projects_def sort_choice_def order_by_def directed_def select_joined_def
          project_rows_def join_award_def join_contractor_def where_filters_def db_two_def
          db0_def clinic_def borehole_def kajiado_north_def Let_def)
  from read_projects_sort [of "Some ''newest''" db_two None None None 0 20
        "[to_view (borehole, kajiado_north, None, None),
          to_view (clinic, kajiado_north, None, None)]"] unknown run
  show ?thesis by (simp add: v_project_to_view)
qed

subsection \<open>Access Guard\<close>

lemma find_username:
  "find (\<lambda>u. u_username u = name) xs = Some user \<Longrightarrow> u_username user = name"
  by (induction xs) (auto split: if_splits)

lemma find_after_login:
  assumes "find (\<lambda>u. u_username u = name) xs = Some user"
  shows "\<exists>u'. find (\<lambda>u. u_username u = name)
                 (map (\<lambda>u. if u_id u = u_id user then user\<lparr>u_last_login := t\<rparr> else u) xs)
                = Some u'
              \<and> u_status u' = u_status user"
  using assms
proof (induction xs)
  case Nil
  then show ?case by simp
next
  case (Cons x xs)
  have name: "u_username user = name"
    using Cons.prems by (rule find_username)
  show ?case
  proof (cases "u_username x = name")
    case True
    with Cons.prems have "x = user" by simp
    then show ?thesis using name by simp
  next
    case False
    with Cons.prems have "find (\<lambda>u. u_username u = name) xs = Some user" by simp
    from Cons.IH [OF this] show ?thesis using False name by auto
  qed
qed

lemma disabled_forbidden:
  assumes "jwt_decode env now token = Some claims" and "jc_sub claims = Some name"
    and "name \<noteq> []" and "find (\<lambda>u. u_username u = name) (users db) = Some user"
    and "u_status user = disabled"
  shows "get_current_user env now token db = Inl (HTTPException 403 ''Account disabled'')"
  using assms by (simp add: get_current_user_def)

lemma never_disabled:
  "get_current_user env now token db = Inr u \<Longrightarrow> u_status u \<noteq> disabled"
  by (auto simp: get_current_user_def split: option.splits if_splits)

text \<open>
  C9. For every token, \<^verbatim>\<open>get_current_user\<close> never returns a disabled user. A token
  that decodes to the (non-empty) username of a user whose status is disabled is answered
  with the 403 "Account disabled", by \<^verbatim>\<open>get_current_user\<close> and so by \<^verbatim>\<open>/auth/me\<close>.
  \<^verbatim>\<open>login\<close> with the right password does issue a token to a disabled account, and
  wherever that token decodes to the account's name, \<^verbatim>\<open>/auth/me\<close> with it is answered
  with the same 403.
\<close>

theorem disabled_account_rejected:
  "(case get_current_user env now token db of
      Inr u \<Rightarrow> u_status u \<noteq> disabled
    | Inl e \<Rightarrow> True)
   \<and> (jwt_decode env now token = Some claims \<and> jc_sub claims = Some name \<and> name \<noteq> []
        \<and> find (\<lambda>u. u_username u = name) (users db) = Some user \<and> u_status user = disabled
      \<longrightarrow> get_current_user env now token db = Inl (HTTPException 403 ''Account disabled'')
          \<and> me env now token db = Inl (HTTPException 403 ''Account disabled''))
   \<and> (find (\<lambda>u. u_username u = name) (users db) = Some user \<and> u_status user = disabled
        \<and> ph_verify env (u_password_hash user) password \<and> name \<noteq> []
      \<longrightarrow> (\<exists>issued db'. login env login_time name password db = (Inr issued, db')
             \<and> (\<forall>claims'. jwt_decode env now issued = Some claims' \<and> jc_sub claims' = Some name
                  \<longrightarrow> me env now issued db' = Inl (HTTPException 403 ''Account disabled''))))"
proof -
  have a: "case get_current_user env now token db of
             Inr u \<Rightarrow> u_status u \<noteq> disabled
           | Inl e \<Rightarrow> True"
    using never_disabled [of env now token db] by (auto split: sum.splits)
  have b: "jwt_decode env now token = Some claims \<and> jc_sub claims = Some name \<and> name \<noteq> []
        \<and> find (\<lambda>u. u_username u = name) (users db) = Some user \<and> u_status user = disabled \<Longrightarrow>
        get_current_user env now token db = Inl (HTTPException 403 ''Account disabled'')
        \<and> me env now token db = Inl (HTTPException 403 ''Account disabled'')"
    using disabled_forbidden [of env now token claims name db user]
    by (simp add: me_def bind_err_def)
  have c: "find (\<lambda>u. u_username u = name) (users db) = Some user \<and> u_status user = disabled
        \<and> ph_verify env (u_password_hash user) password \<and> name \<noteq> [] \<Longrightarrow>
        (\<exists>issued db'. login env login_time name password db = (Inr issued, db')
           \<and> (\<forall>claims'. jwt_decode env now issued = Some claims' \<and> jc_sub claims' = Some name
                \<longrightarrow> me env now issued db' = Inl (HTTPException 403 ''Account disabled'')))"
  proof -
    assume h: "find (\<lambda>u. u_username u = name) (users db) = Some user \<and> u_status user = disabled
        \<and> ph_verify env (u_password_hash user) password \<and> name \<noteq> []"
    let ?db' = "db\<lparr>users := map (\<lambda>u. if u_id u = u_id user
                                      then user\<lparr>u_last_login := Some login_time\<rparr> else u) (users db)\<rparr>"
    let ?tok = "create_access_token env login_time \<lparr>jc_sub = Some (u_username user), jc_exp = None\<rparr> None"
    from h have run: "login env login_time name password db = (Inr ?tok, ?db')"
      by (simp add: login_def Let_def)
    from h find_after_login [of name "users db" user "Some login_time"] obtain u'
      where u': "find (\<lambda>u. u_username u = name) (users ?db') = Some u'" "u_status u' = disabled"
      by auto
    have "\<forall>claims'. jwt_decode env now ?tok = Some claims' \<and> jc_sub claims' = Some name \<longrightarrow>
                 me env now ?tok ?db' = Inl (HTTPException 403 ''Account disabled'')"
      using h u' disabled_forbidden [of env now ?tok _ name ?db' u']
      by (auto simp: me_def bind_err_def)
    with run show ?thesis by blast
  qed
  from a b c show ?thesis by blast
qed

theorem disabled_account_rejected_witness:
  "get_current_user env0 500 ''tok:mwangi'' db_users
     = Inl (HTTPException 403 ''Account disabled'')
   \<and> me env0 500 ''tok:mwangi'' db_users = Inl (HTTPException 403 ''Account disabled'')
   \<and> (\<exists>issued db'. login env0 400 ''mwangi'' ''secret'' db_users = (Inr issued, db')
         \<and> jwt_decode env0 500 issued = Some \<lparr>jc_sub = Some ''mwangi'', jc_exp = Some 86800\<rparr>
         \<and> me env0 500 issued db' = Inl (HTTPException 403 ''Account disabled''))"
proof -
  have dec: "jwt_decode env0 500 ''tok:mwangi''
               = Some \<lparr>jc_sub = Some ''mwangi'', jc_exp = Some 86800\<rparr>"
    by (simp add: env0_def)
  have sub: "jc_sub \<lparr>jc_sub = Some ''mwangi'', jc_exp = Some 86800\<rparr> = Some ''mwangi''"
    by simp
  have usr: "find (\<lambda>u. u_username u = ''mwangi'') (users db_users) = Some mwangi"
    by (simp add: db_users_def db0_def mwangi_def)
  have off: "u_status mwangi = disabled"
    by (simp add: mwangi_def)
  have pw: "ph_verify env0 (u_password_hash mwangi) ''secret''"
    by (simp add: env0_def mwangi_def)
  have tok: "fst (login env0 400 ''mwangi'' ''secret'' db_users) = Inr ''tok:mwangi''"
    by (simp add: login_def env0_def create_access_token_def db_users_def db0_def mwangi_def
          Let_def)
  note inst = disabled_account_rejected
         [where env = env0 and now = 500 and token = "''tok:mwangi''" and db = db_users
            and claims = "\<lparr>jc_sub = Some ''mwangi'', jc_exp = Some 86800\<rparr>"
            and name = "''mwangi''" and user = mwangi and password = "''secret''" and login_time = 400]
  from inst dec sub usr off
  have guard: "get_current_user env0 500 ''tok:mwangi'' db_users
                 = Inl (HTTPException 403 ''Account disabled'')
               \<and> me env0 500 ''tok:mwangi'' db_users = Inl (HTTPException 403 ''Account disabled'')"
    by simp
  from inst usr off pw obtain issued db'
    where run: "login env0 400 ''mwangi'' ''secret'' db_users = (Inr issued, db')"
      and rej: "\<forall>claims'. jwt_decode env0 500 issued = Some claims'
                    \<and> jc_sub claims' = Some ''mwangi''
                  \<longrightarrow> me env0 500 issued db' = Inl (HTTPException 403 ''Account disabled'')"
    by auto
  from run tok have "issued = ''tok:mwangi''"
    by simp
  with run rej dec sub guard show ?thesis by blast
qed

subsection \<open>Natural-Key Upsert\<close>

lemmas import_defs =
  import_csv_def import_row_def skipped_def row_title_def row_constituency_code_def
  row_source_doc_ref_def row_payload_def build_payload_def bind_err_def get_or_def or_None_def
  strip_def is_space_def normalize_category_def normalize_status_def budget_of_def
  as_float_def parse_date_def as_bool_def lower_def lower_char_def find_existing_def
  new_project_def apply_payload_def project_insert_error_def project_update_error_def
  constituency_exists_def next_id_def fits_def too_long_def Let_def

lemmas row_defs =
  row_bad_def row_good_def row_blank_def row_first_def row_second_def sample_py_def clock0_def

lemma fails_validation_payload:
  "fails_validation py row \<longleftrightarrow> isl (row_payload py row)"
  by (auto simp: fails_validation_def row_payload_def build_payload_def bind_err_def
           split: sum.splits)

lemma import_row_invalid:
  assumes "\<not> skipped row" and "fails_validation py row"
  shows "\<exists>e. import_row b py db now row st = Inl e"
proof -
  from assms(2) obtain e0 where "row_payload py row = Inl e0"
    by (auto simp: fails_validation_payload isl_def)
  with assms(1) show ?thesis
    by (simp add: import_row_def bind_err_def Let_def split: option.splits)
qed

lemma import_rows_abort:
  assumes "row \<in> set rows" and "\<not> skipped row" and "fails_validation py row"
  shows "\<exists>e. import_rows b py db clock i rows st = Inl e"
  using assms(1)
proof (induction rows arbitrary: i st)
  case Nil
  then show ?case by simp
next
  case (Cons r rs)
  show ?case
  proof (cases "import_row b py db (clock i) r st")
    case (Inl e)
    then show ?thesis by simp
  next
    case (Inr st')
    with import_row_invalid [OF assms(2,3), of b db "clock i" st] have "r \<noteq> row"
      by auto
    with Cons.prems have "row \<in> set rs" by simp
    from Cons.IH [OF this] Inr show ?thesis by simp
  qed
qed

lemma import_rows_shift:
  "import_rows b py db clock (Suc i) rows st
     = import_rows b py db (\<lambda>j. clock (Suc j)) i rows st"
  by (induction rows arbitrary: i st) (auto split: sum.splits)

text \<open>
  C5, as the claim states it, fails: the first row has the category "Roads", the second
  is a valid row, and \<^verbatim>\<open>import_csv\<close> raises \<^verbatim>\<open>ValueError\<close> with nothing stored,
  under either backend. The valid row is neither created nor updated.
\<close>

theorem import_csv_isolation_counterexample:
  "\<not> skipped row_good \<and> \<not> fails_validation sample_py row_good
   \<and> import_csv strict sample_py clock0 [row_good] db0
       = (Inr (1, 0),
          db0\<lparr>projects := [borehole, clinic\<lparr>p_id := 43, p_budget := 3500000,
                                               p_last_updated := 1000\<rparr>]\<rparr>)
   \<and> import_csv strict sample_py clock0 [row_bad, row_good] db0 = (Inl ValueError, db0)
   \<and> import_csv lax sample_py clock0 [row_bad, row_good] db0 = (Inl ValueError, db0)"
  by (simp add: fails_validation_def import_defs row_defs example_defs)

text \<open>
  C5, amended. A row that has a title and a constituency code and fails a validation
  makes \<^verbatim>\<open>import_csv\<close> raise, wherever the row stands in the batch, and the database is
  the one before the call: no row of the batch is stored. The rows the import passes
  over are those with no title or no constituency code: such a row at the head of a batch
  changes nothing, and the import is that of the rows after it.
\<close>

theorem import_csv_invalid_row_aborts:
  "(row \<in> set rows \<and> \<not> skipped row \<and> fails_validation py row \<longrightarrow>
      (\<exists>e. import_csv b py clock rows db = (Inl e, db)))
   \<and> (skipped row \<longrightarrow>
        import_csv b py clock (row # rows) db = import_csv b py (\<lambda>i. clock (Suc i)) rows db)"
proof -
  have a: "row \<in> set rows \<and> \<not> skipped row \<and> fails_validation py row \<Longrightarrow>
      \<exists>e. import_csv b py clock rows db = (Inl e, db)"
  proof -
    assume h: "row \<in> set rows \<and> \<not> skipped row \<and> fails_validation py row"
    then obtain e where "import_rows b py db clock 0 rows
             \<lparr>st_projects = projects db, st_pending = None, st_created = 0, st_updated = 0\<rparr>
          = Inl e"
      using import_rows_abort by blast
    then show ?thesis by (simp add: import_csv_def)
  qed
  have b: "skipped row \<Longrightarrow>
        import_csv b py clock (row # rows) db = import_csv b py (\<lambda>i. clock (Suc i)) rows db"
    by (simp add: import_csv_def import_row_def import_rows_shift)
  from a b show ?thesis by blast
qed

theorem import_csv_invalid_row_aborts_witness:
  "(\<exists>e. import_csv strict sample_py clock0 [row_good, row_bad, row_good] db0 = (Inl e, db0))
   \<and> import_csv strict sample_py clock0 [row_blank, row_good] db0
       = (Inr (1, 0),
          db0\<lparr>projects := [borehole, clinic\<lparr>p_id := 43, p_budget := 3500000,
                                               p_last_updated := 1001\<rparr>]\<rparr>)"
proof -
  have h: "row_bad \<in> set [row_good, row_bad, row_good] \<and> \<not> skipped row_bad
           \<and> fails_validation sample_py row_bad"
    by (simp add: fails_validation_def import_defs row_defs)
  have blank: "skipped row_blank"
    by (simp add: import_defs row_defs)
  have rest: "import_csv strict sample_py (\<lambda>i. clock0 (Suc i)) [row_good] db0
       = (Inr (1, 0),
          db0\<lparr>projects := [borehole, clinic\<lparr>p_id := 43, p_budget := 3500000,
                                               p_last_updated := 1001\<rparr>]\<rparr>)"
    by (simp add: import_defs row_defs example_defs)
  from import_csv_invalid_row_aborts
         [of row_bad "[row_good, row_bad, row_good]" sample_py strict clock0 db0] h
  have first: "\<exists>e. import_csv strict sample_py clock0 [row_good, row_bad, row_good] db0
                     = (Inl e, db0)"
    by blast
  from import_csv_invalid_row_aborts [of row_blank "[row_good]" sample_py strict clock0 db0]
       blank rest
  have "import_csv strict sample_py clock0 [row_blank, row_good] db0
       = (Inr (1, 0),
          db0\<lparr>projects := [borehole, clinic\<lparr>p_id := 43, p_budget := 3500000,
                                               p_last_updated := 1001\<rparr>]\<rparr>)"
    by simp
  with first show ?thesis by blast
qed

lemma fold_max_ge: "(a::int) \<le> fold max xs a"
  by (induction xs arbitrary: a) (auto intro: order_trans [OF max.cobounded2])

lemma fold_max_mem: "x \<in> set xs \<Longrightarrow> (x::int) \<le> fold max xs a"
proof (induction xs arbitrary: a)
  case Nil
  then show ?case by simp
next
  case (Cons y ys)
  show ?case
  proof (cases "x = y")
    case True
    have "y \<le> max y a" by simp
    also have "\<dots> \<le> fold max ys (max y a)" by (rule fold_max_ge)
    finally show ?thesis using True by simp
  next
    case False
    with Cons show ?thesis by simp
  qed
qed

lemma next_id_fresh: "x \<in> set ids \<Longrightarrow> x < next_id ids"
  using fold_max_mem [of x ids 0] by (simp add: next_id_def)

lemma replace_fresh:
  assumes "\<And>p. p \<in> set ps \<Longrightarrow> p_id p \<noteq> i"
  shows "map (\<lambda>p. if p_id p = i then new else p) ps = ps"
  using assms by (induction ps) auto

lemma row_ref_not_empty: "row_source_doc_ref row \<noteq> Some []"
  by (simp add: row_source_doc_ref_def or_None_def)

lemma find_existing_key:
  "ref \<noteq> Some [] \<Longrightarrow> find_existing ps t c ref = find (has_key t c ref) ps"
  by (cases ref) (auto simp: find_existing_def has_key_def intro!: arg_cong2 [where f = find])

lemma find_none: "\<not> list_ex P xs \<Longrightarrow> find P xs = None"
  by (induction xs) auto

lemma find_appended: "\<not> list_ex P xs \<Longrightarrow> P x \<Longrightarrow> find P (xs @ [x]) = Some x"
  by (induction xs) auto

lemma filter_appended: "\<not> list_ex P xs \<Longrightarrow> P x \<Longrightarrow> filter P (xs @ [x]) = [x]"
  by (induction xs) auto

lemma find_holds: "find P xs = Some x \<Longrightarrow> x \<in> set xs \<and> P x"
  by (induction xs) (auto split: if_splits)

lemma row_payload_key:
  "row_payload py row = Inr pl \<Longrightarrow>
     pl_title pl = row_title row \<and> pl_constituency_code pl = row_constituency_code row
     \<and> pl_source_doc_ref pl = row_source_doc_ref row"
  by (auto simp: row_payload_def build_payload_def bind_err_def split: sum.splits)

lemma payload_of_new: "payload_of (new_project now i pl) = pl"
  by (simp add: payload_of_def new_project_def)

lemma has_key_new:
  "has_key (pl_title pl) (pl_constituency_code pl) (pl_source_doc_ref pl) (new_project now i pl)"
  by (simp add: has_key_def new_project_def)

lemma storable_insert: "storable b db pl \<Longrightarrow> project_insert_error b db (new_project now i pl) = None"
  by (auto simp: storable_def project_insert_error_def new_project_def split: if_splits)

lemma storable_update:
  "storable b db pl \<Longrightarrow> pl_constituency_code pl = p_constituency_code old \<Longrightarrow>
     project_update_error b db old (apply_payload pl old) = None"
  by (auto simp: storable_def project_update_error_def apply_payload_def new_project_def
        too_long_def split: if_splits)

lemma storable_projects: "storable b (db\<lparr>projects := ps\<rparr>) pl = storable b db pl"
  by (simp add: storable_def constituency_exists_def)

lemma import_row_create:
  assumes "\<not> skipped row" and "row_payload py row = Inr pl" and "st_pending st = None"
    and "\<not> list_ex (has_key (row_title row) (row_constituency_code row) (row_source_doc_ref row))
            (st_projects st)"
    and "storable b db pl"
  shows "import_row b py db now row st
           = Inr (st\<lparr>st_projects := st_projects st
                        @ [new_project now (next_id (map p_id (st_projects st))) pl],
                    st_pending := None, st_created := st_created st + 1\<rparr>)"
  using assms
  by (simp add: import_row_def find_existing_key row_ref_not_empty find_none bind_err_def
        storable_insert Let_def)

lemma import_row_update:
  assumes "\<not> skipped row" and "row_payload py row = Inr pl" and "st_pending st = None"
    and "find (has_key (row_title row) (row_constituency_code row) (row_source_doc_ref row))
            (st_projects st) = Some old"
    and "storable b db pl"
  shows "import_row b py db now row st
           = Inr (st\<lparr>st_projects := map (\<lambda>p. if p_id p = p_id old then apply_payload pl old else p)
                                       (st_projects st),
                    st_pending := None, st_updated := st_updated st + 1\<rparr>)"
proof -
  have "has_key (row_title row) (row_constituency_code row) (row_source_doc_ref row) old"
    using assms(4) by (auto dest: find_holds)
  then have "pl_constituency_code pl = p_constituency_code old"
    using row_payload_key [OF assms(2)] by (simp add: has_key_def)
  with assms show ?thesis
    by (simp add: import_row_def find_existing_key row_ref_not_empty bind_err_def
          storable_update Let_def)
qed

lemma find_existing_null:
  "find_existing ps t c None = Some p \<Longrightarrow>
     p \<in> set ps \<and> p_title p = t \<and> p_constituency_code p = c \<and> p_source_doc_ref p = None"
  by (auto simp: find_existing_def dest: find_holds)

text \<open>One row on a table with no row of its key: created.\<close>

lemma import_one_created:
  assumes "\<not> skipped row" and "row_payload py row = Inr pl"
    and "\<not> list_ex (has_key (row_title row) (row_constituency_code row) (row_source_doc_ref row)) ps"
    and "storable b db pl"
  shows "import_rows b py db clock i [row]
           \<lparr>st_projects = ps, st_pending = None, st_created = c, st_updated = u\<rparr>
         = Inr \<lparr>st_projects = ps @ [new_project (clock i) (next_id (map p_id ps)) pl],
                st_pending = None, st_created = c + 1, st_updated = u\<rparr>"
  using import_row_create [OF assms(1,2) _ _ assms(4),
          of "\<lparr>st_projects = ps, st_pending = None, st_created = c, st_updated = u\<rparr>" "clock i"]
        assms(3)
  by simp

text \<open>One row on a table whose last row is the only one of its key: updated.\<close>

lemma import_one_updated:
  assumes "\<not> skipped row" and "row_payload py row = Inr pl"
    and "\<not> list_ex (has_key (row_title row) (row_constituency_code row) (row_source_doc_ref row)) ps"
    and "has_key (row_title row) (row_constituency_code row) (row_source_doc_ref row) old"
    and "p_id old = next_id (map p_id ps)"
    and "storable b db pl"
  shows "import_rows b py db clock i [row]
           \<lparr>st_projects = ps @ [old], st_pending = None, st_created = c, st_updated = u\<rparr>
         = Inr \<lparr>st_projects = ps @ [apply_payload pl old],
                st_pending = None, st_created = c, st_updated = u + 1\<rparr>"
proof -
  have found: "find (has_key (row_title row) (row_constituency_code row) (row_source_doc_ref row))
                 (ps @ [old]) = Some old"
    using assms(3,4) by (rule find_appended)
  have "\<And>p. p \<in> set ps \<Longrightarrow> p_id p \<noteq> p_id old"
    using next_id_fresh [of _ "map p_id ps"] assms(5) by fastforce
  then have "map (\<lambda>p. if p_id p = p_id old then apply_payload pl old else p) ps = ps"
    by (rule replace_fresh)
  then show ?thesis
    using import_row_update [OF assms(1,2) _ _ assms(6),
            of "\<lparr>st_projects = ps @ [old], st_pending = None, st_created = c, st_updated = u\<rparr>"
               old "clock i"] found
    by simp
qed

text \<open>
  C6. Two rows that are valid, are not passed over and have the same title, constituency
  code and document reference (after stripping; an empty reference is null), imported
  into a table with no row of that key, under a backend that accepts both payloads: the
  first import reports one created and none updated, the second none created and one
  updated (and the two rows in one batch report one and one); afterwards the table is
  the old one followed by a single row of that key, which is the only row of that key and
  whose fourteen payload fields are those of the second row. And a lookup with a null
  document reference only ever returns a row of the table with that title, that code and
  a null document reference.
\<close>

theorem upsert_natural_key:
  assumes rows: "\<not> skipped r1" "\<not> skipped r2"
    and valid: "row_payload py r1 = Inr pl1" "row_payload py r2 = Inr pl2"
    and same: "row_title r2 = row_title r1" "row_constituency_code r2 = row_constituency_code r1"
      "row_source_doc_ref r2 = row_source_doc_ref r1"
    and fresh: "\<not> list_ex (has_key (row_title r1) (row_constituency_code r1) (row_source_doc_ref r1))
                   (projects db)"
    and accepted: "storable b db pl1" "storable b db pl2"
  shows "\<exists>p1 p2.
           import_csv b py clock [r1] db = (Inr (1, 0), db\<lparr>projects := projects db @ [p1]\<rparr>)
         \<and> import_csv b py clock' [r2] (db\<lparr>projects := projects db @ [p1]\<rparr>)
             = (Inr (0, 1), db\<lparr>projects := projects db @ [p2]\<rparr>)
         \<and> import_csv b py clock [r1, r2] db = (Inr (1, 1), db\<lparr>projects := projects db @ [p2]\<rparr>)
         \<and> payload_of p1 = pl1 \<and> payload_of p2 = pl2
         \<and> filter (has_key (row_title r1) (row_constituency_code r1) (row_source_doc_ref r1))
              (projects db @ [p2]) = [p2]
         \<and> (\<forall>ps t c p. find_existing ps t c None = Some p \<longrightarrow>
               p \<in> set ps \<and> p_title p = t \<and> p_constituency_code p = c
               \<and> p_source_doc_ref p = None)"
proof -
  let ?i = "next_id (map p_id (projects db))"
  let ?p1 = "new_project (clock 0) ?i pl1"
  let ?p2 = "apply_payload pl2 ?p1"
  let ?db1 = "db\<lparr>projects := projects db @ [?p1]\<rparr>"
  have fresh2: "\<not> list_ex (has_key (row_title r2) (row_constituency_code r2) (row_source_doc_ref r2))
                   (projects db)"
    using fresh by (simp add: same)
  have key1: "has_key (row_title r1) (row_constituency_code r1) (row_source_doc_ref r1) ?p1"
    using has_key_new [of pl1 "clock 0" ?i] row_payload_key [OF valid(1)] by simp
  then have key1': "has_key (row_title r2) (row_constituency_code r2) (row_source_doc_ref r2) ?p1"
    by (simp add: same)
  have id1: "p_id ?p1 = ?i"
    by (simp add: new_project_def)
  have p2: "?p2 = new_project (clock 0) ?i pl2"
    by (simp add: apply_payload_def new_project_def)
  have key2: "has_key (row_title r1) (row_constituency_code r1) (row_source_doc_ref r1) ?p2"
    using has_key_new [of pl2 "clock 0" ?i] row_payload_key [OF valid(2)] by (simp add: p2 same)
  have step1: "\<And>c u. import_rows b py db clock 0 [r1]
           \<lparr>st_projects = projects db, st_pending = None, st_created = c, st_updated = u\<rparr>
         = Inr \<lparr>st_projects = projects db @ [?p1], st_pending = None,
                st_created = c + 1, st_updated = u\<rparr>"
    using import_one_created [OF rows(1) valid(1) fresh accepted(1)] by simp
  have step2: "\<And>ck i c u d. storable b d pl2 \<Longrightarrow> import_rows b py d ck i [r2]
           \<lparr>st_projects = projects db @ [?p1], st_pending = None, st_created = c, st_updated = u\<rparr>
         = Inr \<lparr>st_projects = projects db @ [?p2], st_pending = None,
                st_created = c, st_updated = u + 1\<rparr>"
    using import_one_updated [OF rows(2) valid(2) fresh2 key1' id1] by simp
  have run1: "import_csv b py clock [r1] db = (Inr (1, 0), ?db1)"
    using step1 [of 0 0] by (simp add: import_csv_def)
  have run2: "import_csv b py clock' [r2] ?db1 = (Inr (0, 1), db\<lparr>projects := projects db @ [?p2]\<rparr>)"
    using step2 [of ?db1 clock' 0 0 0] accepted(2)
    by (simp add: import_csv_def storable_projects)
  have both: "import_csv b py clock [r1, r2] db
                = (Inr (1, 1), db\<lparr>projects := projects db @ [?p2]\<rparr>)"
  proof -
    have "import_row b py db (clock 0) r1
            \<lparr>st_projects = projects db, st_pending = None, st_created = 0, st_updated = 0\<rparr>
          = Inr \<lparr>st_projects = projects db @ [?p1], st_pending = None,
                 st_created = 1, st_updated = 0\<rparr>"
      using step1 [of 0 0] by (simp split: sum.splits)
    moreover have "import_rows b py db clock (Suc 0) [r2]
            \<lparr>st_projects = projects db @ [?p1], st_pending = None, st_created = 1, st_updated = 0\<rparr>
          = Inr \<lparr>st_projects = projects db @ [?p2], st_pending = None,
                 st_created = 1, st_updated = 1\<rparr>"
      using step2 [OF accepted(2), of clock "Suc 0" 1 0] by simp
    ultimately show ?thesis by (simp add: import_csv_def)
  qed
  have one: "filter (has_key (row_title r1) (row_constituency_code r1) (row_source_doc_ref r1))
              (projects db @ [?p2]) = [?p2]"
    using fresh key2 by (rule filter_appended)
  have pay: "payload_of ?p1 = pl1 \<and> payload_of ?p2 = pl2"
    by (simp add: p2 payload_of_new)
  have null: "\<forall>ps t c p. find_existing ps t c None = Some p \<longrightarrow>
               p \<in> set ps \<and> p_title p = t \<and> p_constituency_code p = c
               \<and> p_source_doc_ref p = None"
    using find_existing_null by blast
  from run1 run2 both one pay null show ?thesis by blast
qed

theorem upsert_natural_key_witness:
  "\<exists>p1 p2.
      import_csv strict sample_py clock0 [row_first] db0
        = (Inr (1, 0), db0\<lparr>projects := projects db0 @ [p1]\<rparr>)
    \<and> import_csv strict sample_py clock0 [row_second] (db0\<lparr>projects := projects db0 @ [p1]\<rparr>)
        = (Inr (0, 1), db0\<lparr>projects := projects db0 @ [p2]\<rparr>)
    \<and> import_csv strict sample_py clock0 [row_first, row_second] db0
        = (Inr (1, 1), db0\<lparr>projects := projects db0 @ [p2]\<rparr>)
    \<and> pl_budget (payload_of p1) = 2000000 \<and> pl_status (payload_of p1) = Planned
    \<and> pl_budget (payload_of p2) = 3500000 \<and> pl_status (payload_of p2) = Ongoing
    \<and> filter (has_key ''Borehole B'' ''001'' None) (projects db0 @ [p2]) = [p2]"
proof -
  have "\<exists>pl. row_payload sample_py row_first = Inr pl
              \<and> pl_budget pl = 2000000 \<and> pl_status pl = Planned \<and> storable strict db0 pl"
    by (simp add: import_defs row_defs storable_def example_defs)
  then obtain pl1 where pl1: "row_payload sample_py row_first = Inr pl1"
      "pl_budget pl1 = 2000000" "pl_status pl1 = Planned" "storable strict db0 pl1"
    by blast
  have "\<exists>pl. row_payload sample_py row_second = Inr pl
              \<and> pl_budget pl = 3500000 \<and> pl_status pl = Ongoing \<and> storable strict db0 pl"
    by (simp add: import_defs row_defs storable_def example_defs)
  then obtain pl2 where pl2: "row_payload sample_py row_second = Inr pl2"
      "pl_budget pl2 = 3500000" "pl_status pl2 = Ongoing" "storable strict db0 pl2"
    by blast
  have rows: "\<not> skipped row_first" "\<not> skipped row_second"
    by (simp_all add: import_defs row_defs)
  have key: "row_title row_first = ''Borehole B''" "row_constituency_code row_first = ''001''"
      "row_source_doc_ref row_first = None"
    by (simp_all add: import_defs row_defs)
  have same: "row_title row_second = row_title row_first"
      "row_constituency_code row_second = row_constituency_code row_first"
      "row_source_doc_ref row_second = row_source_doc_ref row_first"
    by (simp_all add: import_defs row_defs)
  have fresh: "\<not> list_ex (has_key (row_title row_first) (row_constituency_code row_first)
                            (row_source_doc_ref row_first)) (projects db0)"
    by (simp add: key has_key_def db0_def borehole_def)
  from upsert_natural_key [OF rows pl1(1) pl2(1) same fresh pl1(4) pl2(4), of clock0 clock0]
  obtain p1 p2
    where one: "import_csv strict sample_py clock0 [row_first] db0
                  = (Inr (1, 0), db0\<lparr>projects := projects db0 @ [p1]\<rparr>)"
      and two: "import_csv strict sample_py clock0 [row_second]
                    (db0\<lparr>projects := projects db0 @ [p1]\<rparr>)
                  = (Inr (0, 1), db0\<lparr>projects := projects db0 @ [p2]\<rparr>)"
      and batch: "import_csv strict sample_py clock0 [row_first, row_second] db0
                  = (Inr (1, 1), db0\<lparr>projects := projects db0 @ [p2]\<rparr>)"
      and pay: "payload_of p1 = pl1" "payload_of p2 = pl2"
      and only: "filter (has_key (row_title row_first) (row_constituency_code row_first)
                           (row_source_doc_ref row_first)) (projects db0 @ [p2]) = [p2]"
    by blast
  have fields: "pl_budget (payload_of p1) = 2000000 \<and> pl_status (payload_of p1) = Planned
      \<and> pl_budget (payload_of p2) = 3500000 \<and> pl_status (payload_of p2) = Ongoing"
    using pay pl1(2,3) pl2(2,3) by simp
  from one two batch fields only [unfolded key] show ?thesis by blast
qed

end
